theory Spec2Isabelle
  imports Main "HOL-Library.Word" "HOL-Library.Signed_Division" "HOL-Library.AList"
begin

unbundle bit_operations_syntax

section \<open>The Zylo tree-walking evaluator\<close>

text \<open>
  A shallow embedding of \<^verbatim>\<open>internal/evaluator/evaluator.go\<close> and of the part of
  \<^verbatim>\<open>internal/ast/ast.go\<close> it reads. Each function of the evaluator is a definition named
  after it. The evaluator is a Go object whose field \<^verbatim>\<open>env\<close> points to the current
  environment; environments and List objects are heap objects reached through pointers, so
  the model keeps both in an explicit store and passes the state through every call.
\<close>

subsection \<open>Machine numbers\<close>

type_synonym int64 = "64 word"

text \<open>A \<^verbatim>\<open>float64\<close> is kept as its IEEE-754 bit pattern (\<^verbatim>\<open>math.Float64bits\<close>).\<close>

type_synonym float64 = "64 word"

text \<open>\<^verbatim>\<open>fmt.Sprintf("%d", i)\<close> on an \<^verbatim>\<open>int64\<close>.\<close>

definition decimal_digit :: "nat \<Rightarrow> char" where
  "decimal_digit d = ''0123456789'' ! d"

fun decimal :: "nat \<Rightarrow> string" where
  "decimal n = (if n < 10 then [decimal_digit n] else decimal (n div 10) @ [decimal_digit (n mod 10)])"

declare decimal.simps [simp del]

definition fmt_d :: "int64 \<Rightarrow> string" where
  "fmt_d i = (if sint i < 0 then ''-'' @ decimal (nat (- sint i)) else decimal (nat (sint i)))"

text \<open>Go's \<^verbatim>\<open>/\<close> on \<^verbatim>\<open>int64\<close> truncates towards zero and wraps at the one overflow.\<close>

definition int64_quo :: "int64 \<Rightarrow> int64 \<Rightarrow> int64" where
  "int64_quo a b = word_of_int (sint a sdiv sint b)"

text \<open>
  Comparison of two \<^verbatim>\<open>float64\<close> values, on the bit patterns: a NaN compares false with
  everything, the two zeros are equal, and otherwise the order is that of the signed
  magnitudes.
\<close>

definition float64_magnitude :: "float64 \<Rightarrow> float64" where
  "float64_magnitude b = b AND 0x7FFFFFFFFFFFFFFF"

definition float64_isNaN :: "float64 \<Rightarrow> bool" where
  "float64_isNaN b \<longleftrightarrow> 0x7FF0000000000000 < float64_magnitude b"

definition float64_key :: "float64 \<Rightarrow> int" where
  "float64_key b = (if bit b 63 then - uint (float64_magnitude b) else uint (float64_magnitude b))"

definition float64_eq :: "float64 \<Rightarrow> float64 \<Rightarrow> bool" where
  "float64_eq a b \<longleftrightarrow> \<not> float64_isNaN a \<and> \<not> float64_isNaN b \<and> float64_key a = float64_key b"

definition float64_lt :: "float64 \<Rightarrow> float64 \<Rightarrow> bool" where
  "float64_lt a b \<longleftrightarrow> \<not> float64_isNaN a \<and> \<not> float64_isNaN b \<and> float64_key a < float64_key b"

definition float64_le :: "float64 \<Rightarrow> float64 \<Rightarrow> bool" where
  "float64_le a b \<longleftrightarrow> \<not> float64_isNaN a \<and> \<not> float64_isNaN b \<and> float64_key a \<le> float64_key b"

subsection \<open>The syntax tree\<close>

text \<open>
  \<^verbatim>\<open>ast.Expression\<close> and \<^verbatim>\<open>ast.Statement\<close> are Go interfaces: a field of such a type
  holds a node or \<^verbatim>\<open>nil\<close>, and the evaluator tests for \<^verbatim>\<open>nil\<close>. The constructors
  \<open>NilExpr\<close> and \<open>NilStmt\<close> are that \<^verbatim>\<open>nil\<close>. A \<^verbatim>\<open>*BlockStatement\<close> is a pointer
  that may be \<^verbatim>\<open>nil\<close>: a block is an optional statement list. An \<^verbatim>\<open>*Identifier\<close> that
  the evaluator checks for \<^verbatim>\<open>nil\<close> is an optional name; the others are dereferenced
  unchecked and are taken to be present. Tokens are read by no evaluator function and are left
  out, as are \<^verbatim>\<open>FuncStatement.ReturnType\<close> and \<^verbatim>\<open>ClassStatement.InitMethod\<close>.
  \<^verbatim>\<open>BlockExpression\<close> and \<^verbatim>\<open>ClassInstantiation\<close> are expressions, and \<^verbatim>\<open>CatchClause\<close> is
  a statement, for which the evaluator has no case.
\<close>

datatype numlit = IntLit int64 | FloatLit float64 | OtherLit

datatype expr =
    NilExpr
  | Identifier string
  | StringLiteral string
  | NumberLiteral numlit
  | BooleanLiteral bool
  | NullLiteral
  | CallExpression expr "expr list"
  | MemberExpression expr "string option"
  | ListLiteral "expr list"
  | HashLiteral "(expr \<times> expr) list"
  | IndexExpression expr expr
  | InfixExpression expr string expr
  | PrefixExpression string expr
  | ThisExpression
  | ImportExpression "string option"
  | BlockExpression
  | ClassInstantiation

datatype stmt =
    NilStmt
  | VarStatement string expr
  | ExpressionStatement expr
  | FuncStatement string "string list" "stmt list option"
  | ReturnStatement expr
  | IfStatement expr "stmt list option" "stmt list option"
  | WhileStatement expr "stmt list option"
  | ForInStatement string expr "stmt list option"
  | TryStatement "stmt list option" "(string option \<times> stmt list option) option" "stmt list option"
  | ThrowStatement expr
  | BreakStatement
  | ContinueStatement
  | ClassStatement string "(string \<times> expr) list" "(string \<times> string list \<times> stmt list option) list"
  | BlockStatement "stmt list"
  | ImportStatement "string option"
  | CatchClause

type_synonym block = "stmt list option"

subsection \<open>Runtime values\<close>

type_synonym addr = nat

text \<open>
  A \<^verbatim>\<open>*ZyloFunction\<close>: name, parameter names, body and the captured environment (a pointer:
  the environment is shared, not copied).
\<close>

datatype zfunc = ZyloFunction (fn_Name: string) (fn_Parameters: "string list") (fn_Body: block) (fn_Env: addr)

text \<open>
  A \<^verbatim>\<open>*BuiltinFunction\<close> is a name and a native closure. The closures that
  \<^verbatim>\<open>InitBuiltins\<close> registers are told apart by their name; the three that
  \<^verbatim>\<open>evaluateMemberExpression\<close> makes for a List capture the pointer to that List.
\<close>

datatype builtin = Registered string | ListGet addr | ListAppend addr | ListLen addr

text \<open>
  \<^verbatim>\<open>Value\<close> is \<^verbatim>\<open>interface{}\<close>: \<open>NilValue\<close> is the nil interface, which is not the
  object \<^verbatim>\<open>&Null{}\<close> (\<open>Null\<close>). A List is a pointer to an object whose \<^verbatim>\<open>Items\<close> are
  appended to in place, so the value is the address. Hashes, classes and instances are
  pointers too, but no evaluator function writes to one after it is built, so they are kept
  by value; a Go map is an association list read with \<open>map_of\<close>.
\<close>

datatype val =
    NilValue
  | String string
  | Integer int64
  | Float float64
  | List addr
  | Hash "(string \<times> val) list"
  | Boolean bool
  | Null
  | ZyloFunctionV zfunc
  | BuiltinFunction builtin
  | ZyloClassV zclass
  | ZyloInstanceV zinstance
  | BoundMethod zinstance zfunc
  | BreakValue
  | ContinueValue
and zclass =
    ZyloClass (class_Name: string) (class_Attributes: "(string \<times> val) list")
      (class_Methods: "(string \<times> zfunc) list") (class_InitMethod: "zfunc option")
and zinstance =
    ZyloInstance (inst_Class: zclass) (inst_Fields: "(string \<times> val) list")

text \<open>The name \<^verbatim>\<open>%T\<close> prints for a value.\<close>

definition goType :: "val \<Rightarrow> string" where
  "goType v = (case v of
      NilValue \<Rightarrow> ''<nil>''
    | String _ \<Rightarrow> ''*evaluator.String''
    | Integer _ \<Rightarrow> ''*evaluator.Integer''
    | Float _ \<Rightarrow> ''*evaluator.Float''
    | List _ \<Rightarrow> ''*evaluator.List''
    | Hash _ \<Rightarrow> ''*evaluator.Hash''
    | Boolean _ \<Rightarrow> ''*evaluator.Boolean''
    | Null \<Rightarrow> ''*evaluator.Null''
    | ZyloFunctionV _ \<Rightarrow> ''*evaluator.ZyloFunction''
    | BuiltinFunction _ \<Rightarrow> ''*evaluator.BuiltinFunction''
    | ZyloClassV _ \<Rightarrow> ''*evaluator.ZyloClass''
    | ZyloInstanceV _ \<Rightarrow> ''*evaluator.ZyloInstance''
    | BoundMethod _ _ \<Rightarrow> ''*evaluator.BoundMethod''
    | BreakValue \<Rightarrow> ''*evaluator.BreakValue''
    | ContinueValue \<Rightarrow> ''*evaluator.ContinueValue'')"

subsection \<open>Errors\<close>

text \<open>
  A Go \<^verbatim>\<open>error\<close> is its message. A run-time panic (a nil pointer dereferenced) is not an
  \<^verbatim>\<open>error\<close> value: no \<^verbatim>\<open>if err != nil\<close> sees it, it unwinds the whole call stack.
\<close>

datatype error = Error string | Panic

definition apostrophe :: string where
  "apostrophe = [CHR 0x27]"

definition o_acute :: string where
  "o_acute = [CHR 0xC3, CHR 0xB3]"

definition division_by_zero :: error where
  "division_by_zero = Error (''divisi'' @ o_acute @ ''n por cero'')"

subsection \<open>The host\<close>

text \<open>
  What the evaluator takes from the Go runtime and standard library is a parameter of the
  model: \<^verbatim>\<open>float64\<close> arithmetic and conversion, \<^verbatim>\<open>%g\<close> formatting, the runes of a string
  (\<^verbatim>\<open>range\<close> over a string), and the native bodies of the registered builtins that print,
  read standard input or parse and format text (\<^verbatim>\<open>show.log\<close>, \<^verbatim>\<open>read.line\<close>,
  \<^verbatim>\<open>read.int\<close>, \<^verbatim>\<open>string\<close>, \<^verbatim>\<open>split\<close>, \<^verbatim>\<open>to_number\<close>, \<^verbatim>\<open>zyloruntime.Split\<close>,
  \<^verbatim>\<open>getInput\<close>). Such a body sees its arguments, the List objects and the outside world
  \<open>'w\<close> (the reader, the console); it returns an error, a value, or the items of a List it
  has made. It has no access to the environments. Every theorem below holds for every host.
\<close>

datatype native_result = NativeError string | NativeValue val | NativeList "val list"

record 'w host =
  float_add :: "float64 \<Rightarrow> float64 \<Rightarrow> float64"
  float_sub :: "float64 \<Rightarrow> float64 \<Rightarrow> float64"
  float_mul :: "float64 \<Rightarrow> float64 \<Rightarrow> float64"
  float_quo :: "float64 \<Rightarrow> float64 \<Rightarrow> float64"
  float_of_int :: "int64 \<Rightarrow> float64"
  fmt_g :: "float64 \<Rightarrow> string"
  runes :: "string \<Rightarrow> string list"
  native :: "string \<Rightarrow> val list \<Rightarrow> val list list \<Rightarrow> 'w \<Rightarrow> native_result \<times> 'w"

subsection \<open>Truthiness and binary operators\<close>

definition isTruthy :: "val \<Rightarrow> bool" where
  "isTruthy v = (case v of
      NilValue \<Rightarrow> False
    | Boolean b \<Rightarrow> b
    | Integer i \<Rightarrow> i \<noteq> 0
    | String s \<Rightarrow> length s > 0
    | _ \<Rightarrow> True)"

text \<open>
  The operand kinds the arithmetic and ordering cases of \<^verbatim>\<open>applyOperator\<close> tell apart: each
  case is the same chain of type assertions, Integer or Float on the left, then Integer or
  Float on the right.
\<close>

datatype operands =
    IntInt int64 int64
  | IntFloat int64 float64
  | FloatInt float64 int64
  | FloatFloat float64 float64
  | NotNumeric

definition numeric_operands :: "val \<Rightarrow> val \<Rightarrow> operands" where
  "numeric_operands left right = (case left of
      Integer a \<Rightarrow> (case right of Integer b \<Rightarrow> IntInt a b | Float b \<Rightarrow> IntFloat a b | _ \<Rightarrow> NotNumeric)
    | Float a \<Rightarrow> (case right of Integer b \<Rightarrow> FloatInt a b | Float b \<Rightarrow> FloatFloat a b | _ \<Rightarrow> NotNumeric)
    | _ \<Rightarrow> NotNumeric)"

text \<open>The error after the \<^verbatim>\<open>switch\<close>, reached when no case has returned.\<close>

definition unsupported :: "string \<Rightarrow> val \<Rightarrow> val \<Rightarrow> error" where
  "unsupported operator left right =
     Error (''operador '' @ apostrophe @ operator @ apostrophe @ '' no soportado para tipos ''
            @ goType left @ '' y '' @ goType right)"

definition plus_operator :: "'w host \<Rightarrow> val \<Rightarrow> val \<Rightarrow> error + val" where
  "plus_operator h left right = (case left of
      String l \<Rightarrow> (case right of
          String r \<Rightarrow> Inr (String (l @ r))
        | Integer r \<Rightarrow> Inr (String (l @ fmt_d r))
        | Float r \<Rightarrow> Inr (String (l @ fmt_g h r))
        | _ \<Rightarrow> Inl (unsupported ''+'' left right))
    | Integer l \<Rightarrow> (case right of
          String r \<Rightarrow> Inr (String (fmt_d l @ r))
        | Integer r \<Rightarrow> Inr (Integer (l + r))
        | Float r \<Rightarrow> Inr (Float (float_add h (float_of_int h l) r))
        | _ \<Rightarrow> Inl (unsupported ''+'' left right))
    | Float l \<Rightarrow> (case right of
          String r \<Rightarrow> Inr (String (fmt_g h l @ r))
        | Integer r \<Rightarrow> Inr (Float (float_add h l (float_of_int h r)))
        | Float r \<Rightarrow> Inr (Float (float_add h l r))
        | _ \<Rightarrow> Inl (unsupported ''+'' left right))
    | _ \<Rightarrow> Inl (unsupported ''+'' left right))"

definition quo_operator :: "'w host \<Rightarrow> val \<Rightarrow> val \<Rightarrow> error + val" where
  "quo_operator h left right = (case numeric_operands left right of
      IntInt l r \<Rightarrow> if r = 0 then Inl division_by_zero else Inr (Integer (int64_quo l r))
    | IntFloat l r \<Rightarrow>
        if float64_eq r 0 then Inl division_by_zero
        else Inr (Float (float_quo h (float_of_int h l) r))
    | FloatInt l r \<Rightarrow>
        if r = 0 then Inl division_by_zero
        else Inr (Float (float_quo h l (float_of_int h r)))
    | FloatFloat l r \<Rightarrow>
        if float64_eq r 0 then Inl division_by_zero else Inr (Float (float_quo h l r))
    | NotNumeric \<Rightarrow> Inl (unsupported ''/'' left right))"

text \<open>
  \<^verbatim>\<open>==\<close>: String with String, then the numeric pairs, then Boolean with Boolean; every
  other pair of operands is \<^verbatim>\<open>false\<close>. \<^verbatim>\<open>!=\<close> is the same dispatch with the tests negated
  and \<^verbatim>\<open>true\<close> at the end.
\<close>

definition same_kind_equal :: "'w host \<Rightarrow> val \<Rightarrow> val \<Rightarrow> bool option" where
  "same_kind_equal h left right = (case left of
      String l \<Rightarrow> (case right of String r \<Rightarrow> Some (l = r) | _ \<Rightarrow> None)
    | Integer l \<Rightarrow> (case right of
          Integer r \<Rightarrow> Some (l = r)
        | Float r \<Rightarrow> Some (float64_eq (float_of_int h l) r)
        | _ \<Rightarrow> None)
    | Float l \<Rightarrow> (case right of
          Integer r \<Rightarrow> Some (float64_eq l (float_of_int h r))
        | Float r \<Rightarrow> Some (float64_eq l r)
        | _ \<Rightarrow> None)
    | Boolean l \<Rightarrow> (case right of Boolean r \<Rightarrow> Some (l = r) | _ \<Rightarrow> None)
    | _ \<Rightarrow> None)"

definition applyOperator :: "'w host \<Rightarrow> string \<Rightarrow> val \<Rightarrow> val \<Rightarrow> error + val" where
  "applyOperator h operator left right =
    (if left = NilValue \<or> right = NilValue
     then Inl (Error (''cannot apply operator '' @ apostrophe @ operator @ apostrophe @ '' to nil values''))
     else if operator = ''+'' then plus_operator h left right
     else if operator = ''-'' then (case numeric_operands left right of
          IntInt l r \<Rightarrow> Inr (Integer (l - r))
        | IntFloat l r \<Rightarrow> Inr (Float (float_sub h (float_of_int h l) r))
        | FloatInt l r \<Rightarrow> Inr (Float (float_sub h l (float_of_int h r)))
        | FloatFloat l r \<Rightarrow> Inr (Float (float_sub h l r))
        | NotNumeric \<Rightarrow> Inl (unsupported operator left right))
     else if operator = ''*'' then (case numeric_operands left right of
          IntInt l r \<Rightarrow> Inr (Integer (l * r))
        | IntFloat l r \<Rightarrow> Inr (Float (float_mul h (float_of_int h l) r))
        | FloatInt l r \<Rightarrow> Inr (Float (float_mul h l (float_of_int h r)))
        | FloatFloat l r \<Rightarrow> Inr (Float (float_mul h l r))
        | NotNumeric \<Rightarrow> Inl (unsupported operator left right))
     else if operator = ''/'' then quo_operator h left right
     else if operator = ''=='' then (case same_kind_equal h left right of
          Some b \<Rightarrow> Inr (Boolean b)
        | None \<Rightarrow> Inr (Boolean False))
     else if operator = ''!='' then (case same_kind_equal h left right of
          Some b \<Rightarrow> Inr (Boolean (\<not> b))
        | None \<Rightarrow> Inr (Boolean True))
     else if operator = ''<'' then (case numeric_operands left right of
          IntInt l r \<Rightarrow> Inr (Boolean (sint l < sint r))
        | IntFloat l r \<Rightarrow> Inr (Boolean (float64_lt (float_of_int h l) r))
        | FloatInt l r \<Rightarrow> Inr (Boolean (float64_lt l (float_of_int h r)))
        | FloatFloat l r \<Rightarrow> Inr (Boolean (float64_lt l r))
        | NotNumeric \<Rightarrow> Inl (unsupported operator left right))
     else if operator = ''>'' then (case numeric_operands left right of
          IntInt l r \<Rightarrow> Inr (Boolean (sint r < sint l))
        | IntFloat l r \<Rightarrow> Inr (Boolean (float64_lt r (float_of_int h l)))
        | FloatInt l r \<Rightarrow> Inr (Boolean (float64_lt (float_of_int h r) l))
        | FloatFloat l r \<Rightarrow> Inr (Boolean (float64_lt r l))
        | NotNumeric \<Rightarrow> Inl (unsupported operator left right))
     else if operator = ''<='' then (case numeric_operands left right of
          IntInt l r \<Rightarrow> Inr (Boolean (sint l \<le> sint r))
        | IntFloat l r \<Rightarrow> Inr (Boolean (float64_le (float_of_int h l) r))
        | FloatInt l r \<Rightarrow> Inr (Boolean (float64_le l (float_of_int h r)))
        | FloatFloat l r \<Rightarrow> Inr (Boolean (float64_le l r))
        | NotNumeric \<Rightarrow> Inl (unsupported operator left right))
     else if operator = ''>='' then (case numeric_operands left right of
          IntInt l r \<Rightarrow> Inr (Boolean (sint r \<le> sint l))
        | IntFloat l r \<Rightarrow> Inr (Boolean (float64_le r (float_of_int h l)))
        | FloatInt l r \<Rightarrow> Inr (Boolean (float64_le (float_of_int h r) l))
        | FloatFloat l r \<Rightarrow> Inr (Boolean (float64_le r l))
        | NotNumeric \<Rightarrow> Inl (unsupported operator left right))
     else if operator = ''&&'' then
       (if \<not> isTruthy left then Inr (Boolean False) else Inr (Boolean (isTruthy right)))
     else if operator = ''||'' then
       (if isTruthy left then Inr (Boolean True) else Inr (Boolean (isTruthy right)))
     else Inl (unsupported operator left right))"

subsection \<open>The evaluator state\<close>

text \<open>
  An \<^verbatim>\<open>*Environment\<close> is an address in \<open>environments\<close>, a \<^verbatim>\<open>*List\<close> an address in
  \<open>list_items\<close>; both stores only grow, a new object takes the next address. \<open>env\<close> is
  the field \<^verbatim>\<open>Evaluator.env\<close>, \<open>world\<close> what the host's native bodies read and write.
\<close>

record environment =
  variables :: "(string \<times> val) list"
  parent :: "addr option"

record 'w state =
  env :: addr
  environments :: "environment list"
  list_items :: "val list list"
  world :: 'w

definition NewChildEnvironment :: "addr \<Rightarrow> 'w state \<Rightarrow> addr \<times> 'w state" where
  "NewChildEnvironment e s =
     (length (environments s),
      s\<lparr>environments := environments s @ [\<lparr>variables = [], parent = Some e\<rparr>]\<rparr>)"

text \<open>
  \<^verbatim>\<open>Environment.Get\<close> looks in the scope and then in its parent. A chain of parents is no
  longer than the number of environments, which bounds the recursion.
\<close>

primrec Get_chain :: "nat \<Rightarrow> environment list \<Rightarrow> addr \<Rightarrow> string \<Rightarrow> val option" where
  "Get_chain 0 es e name = None"
| "Get_chain (Suc k) es e name =
     (if e < length es
      then (case map_of (variables (es ! e)) name of
              Some value \<Rightarrow> Some value
            | None \<Rightarrow> (case parent (es ! e) of
                        Some p \<Rightarrow> Get_chain k es p name
                      | None \<Rightarrow> None))
      else None)"

definition env_Get :: "'w state \<Rightarrow> addr \<Rightarrow> string \<Rightarrow> val option" where
  "env_Get s e name = Get_chain (length (environments s)) (environments s) e name"

definition env_Set :: "addr \<Rightarrow> string \<Rightarrow> val \<Rightarrow> 'w state \<Rightarrow> 'w state" where
  "env_Set e name value s =
     s\<lparr>environments := (environments s)
         [e := (environments s ! e)\<lparr>variables := AList.update name value (variables (environments s ! e))\<rparr>]\<rparr>"

definition Items :: "'w state \<Rightarrow> addr \<Rightarrow> val list" where
  "Items s a = (if a < length (list_items s) then list_items s ! a else [])"

definition NewList :: "val list \<Rightarrow> 'w state \<Rightarrow> addr \<times> 'w state" where
  "NewList items s = (length (list_items s), s\<lparr>list_items := list_items s @ [items]\<rparr>)"

subsection \<open>Results\<close>

text \<open>
  A Go function \<^verbatim>\<open>func (e *Evaluator) f(...) (Value, error)\<close> becomes a function from the
  state to an error or a value, with the new state. State changes made before an error stay.
  The outer \<open>option\<close> is the bound on the depth of calls and the number of loop rounds
  (below): \<open>None\<close> means the bound was reached.
\<close>

type_synonym ('w, 'a) eval = "'w state \<Rightarrow> ((error + 'a) \<times> 'w state) option"

definition ok :: "'a \<Rightarrow> ('w, 'a) eval" where
  "ok v s = Some (Inr v, s)"

definition errorf :: "string \<Rightarrow> ('w, 'a) eval" where
  "errorf msg s = Some (Inl (Error msg), s)"

definition panic :: "('w, 'a) eval" where
  "panic s = Some (Inl Panic, s)"

definition lift :: "error + 'a \<Rightarrow> ('w, 'a) eval" where
  "lift x s = Some (x, s)"

text \<open>\<^verbatim>\<open>v, err := m(); if err != nil { return nil, err }; ...\<close>\<close>

definition bind :: "('w, 'a) eval \<Rightarrow> ('a \<Rightarrow> ('w, 'b) eval) \<Rightarrow> ('w, 'b) eval" where
  "bind m f s = (case m s of
      None \<Rightarrow> None
    | Some (Inl e, s') \<Rightarrow> Some (Inl e, s')
    | Some (Inr v, s') \<Rightarrow> f v s')"

text \<open>
  \<^verbatim>\<open>oldEnv := e.env; e.env = x; defer func() { e.env = oldEnv }()\<close>: the rest of the function
  runs with \<open>x\<close> as the current environment, and the deferred function puts the old one
  back on every way out, a panic included.
\<close>

definition with_env :: "addr \<Rightarrow> ('w, 'a) eval \<Rightarrow> ('w, 'a) eval" where
  "with_env x m s = (case m (s\<lparr>env := x\<rparr>) of
      None \<Rightarrow> None
    | Some (res, s') \<Rightarrow> Some (res, s'\<lparr>env := env s\<rparr>))"

subsection \<open>Evaluation\<close>

text \<open>
  \<^verbatim>\<open>evaluateStatement\<close>, \<^verbatim>\<open>evaluateExpression\<close> and \<^verbatim>\<open>evaluateBlockStatement\<close> call each
  other without bound (a \<^verbatim>\<open>while\<close> loop may not end, a function may call itself). Each
  function below takes these three as the argument \<open>r\<close>, the evaluator for the calls it
  makes; \<open>evaluator h n\<close> at the end ties them together for calls nested at most \<open>n\<close>
  deep.
\<close>

record 'w calls =
  call_stmt :: "stmt \<Rightarrow> ('w, val) eval"
  call_expr :: "expr \<Rightarrow> ('w, val) eval"
  call_block :: "block \<Rightarrow> ('w, val) eval"

definition evaluateVarStatement :: "'w calls \<Rightarrow> string \<Rightarrow> expr \<Rightarrow> ('w, unit) eval" where
  "evaluateVarStatement r name value s =
     (if value \<noteq> NilExpr
      then bind (call_expr r value) (\<lambda>v s'. ok () (env_Set (env s') name v s')) s
      else ok () (env_Set (env s) name Null s))"

definition evaluateFuncStatement :: "string \<Rightarrow> string list \<Rightarrow> block \<Rightarrow> ('w, unit) eval" where
  "evaluateFuncStatement name parameters body s =
     ok () (env_Set (env s) name (ZyloFunctionV (ZyloFunction name parameters body (env s))) s)"

definition evaluateIfStatement :: "'w calls \<Rightarrow> expr \<Rightarrow> block \<Rightarrow> block \<Rightarrow> ('w, val) eval" where
  "evaluateIfStatement r condition consequence alternative s =
     bind (call_expr r condition) (\<lambda>c.
       if isTruthy c then call_block r consequence
       else if alternative \<noteq> None then call_block r alternative
       else ok Null) s"

text \<open>The catch clause and the finally block are arguments that no branch reads.\<close>

definition evaluateTryStatement ::
  "'w calls \<Rightarrow> block \<Rightarrow> (string option \<times> block) option \<Rightarrow> block \<Rightarrow> ('w, val) eval" where
  "evaluateTryStatement r tryBlock catchClause finallyBlock s =
     (if tryBlock = None then errorf ''nil try block'' s else call_block r tryBlock s)"

definition evaluateThrowStatement :: "expr \<Rightarrow> ('w, val) eval" where
  "evaluateThrowStatement exception s = ok Null s"

text \<open>The loop of \<^verbatim>\<open>evaluateBlockStatement\<close> over the statements, with \<^verbatim>\<open>lastValue\<close>.\<close>

primrec blockLoop :: "'w calls \<Rightarrow> stmt list \<Rightarrow> val \<Rightarrow> ('w, val) eval" where
  "blockLoop r [] lastValue = ok lastValue"
| "blockLoop r (bodyStmt # rest) lastValue =
     bind (call_stmt r bodyStmt) (\<lambda>value.
       if value = BreakValue \<or> value = ContinueValue then ok value
       else blockLoop r rest value)"

text \<open>A nil \<^verbatim>\<open>*BlockStatement\<close> panics at \<^verbatim>\<open>stmt.Statements\<close>, after the \<^verbatim>\<open>defer\<close>.\<close>

definition evaluateBlockStatement :: "'w calls \<Rightarrow> block \<Rightarrow> ('w, val) eval" where
  "evaluateBlockStatement r b s =
     (let (childEnv, s1) = NewChildEnvironment (env s) s
      in with_env childEnv (case b of None \<Rightarrow> panic | Some stmts \<Rightarrow> blockLoop r stmts Null) s1)"

text \<open>
  The inner loop of \<^verbatim>\<open>evaluateWhileStatement\<close> leaves in three ways: at the end of the
  statements, by \<^verbatim>\<open>break\<close> on a Continue value (both go on to the next round), and by
  \<^verbatim>\<open>return\<close> on a Break value.
\<close>

datatype body_exit = BodyDone | BodyContinue | BodyBreak

primrec whileBody :: "'w calls \<Rightarrow> stmt list \<Rightarrow> ('w, body_exit) eval" where
  "whileBody r [] = ok BodyDone"
| "whileBody r (bodyStmt # rest) =
     bind (call_stmt r bodyStmt) (\<lambda>value.
       if value = BreakValue then ok BodyBreak
       else if value = ContinueValue then ok BodyContinue
       else whileBody r rest)"

text \<open>The next round of \<^verbatim>\<open>for { ... }\<close> is the same statement, evaluated again.\<close>

definition evaluateWhileStatement :: "'w calls \<Rightarrow> expr \<Rightarrow> block \<Rightarrow> ('w, val) eval" where
  "evaluateWhileStatement r condition body s =
     bind (call_expr r condition) (\<lambda>c.
       if \<not> isTruthy c then ok Null
       else (case body of
               None \<Rightarrow> panic
             | Some stmts \<Rightarrow> bind (whileBody r stmts) (\<lambda>exit.
                 if exit = BodyBreak then ok Null
                 else call_stmt r (WhileStatement condition body)))) s"

primrec forLoop :: "'w calls \<Rightarrow> string \<Rightarrow> block \<Rightarrow> val list \<Rightarrow> ('w, unit) eval" where
  "forLoop r name body [] = ok ()"
| "forLoop r name body (element # rest) = (\<lambda>s.
     bind (call_block r body) (\<lambda>result.
       if result = BreakValue then ok () else forLoop r name body rest)
       (env_Set (env s) name element s))"

definition evaluateForInStatement ::
  "'w host \<Rightarrow> 'w calls \<Rightarrow> string \<Rightarrow> expr \<Rightarrow> block \<Rightarrow> ('w, val) eval" where
  "evaluateForInStatement h r name iterable body s =
     bind (call_expr r iterable) (\<lambda>iter s'. case iter of
         List a \<Rightarrow> bind (forLoop r name body (Items s' a)) (\<lambda>_. ok Null) s'
       | String str \<Rightarrow> bind (forLoop r name body (map String (runes h str))) (\<lambda>_. ok Null) s'
       | _ \<Rightarrow> errorf (''cannot iterate over '' @ goType iter) s') s"

definition evaluateImportStatement :: "string option \<Rightarrow> ('w, val) eval" where
  "evaluateImportStatement moduleName s = (case moduleName of
      None \<Rightarrow> errorf ''import statement has nil module name'' s
    | Some name \<Rightarrow>
        if env_Get s (env s) name \<noteq> None then ok Null s
        else if name = ''zyloruntime''
        then ok Null (env_Set (env s) name (String ''zyloruntime_module'') s)
        else errorf (''Module '' @ apostrophe @ name @ apostrophe @ '' not found'') s)"

primrec classAttributes ::
  "'w calls \<Rightarrow> (string \<times> expr) list \<Rightarrow> (string \<times> val) list \<Rightarrow> ('w, (string \<times> val) list) eval" where
  "classAttributes r [] attributes = ok attributes"
| "classAttributes r (attr # rest) attributes =
     (if snd attr \<noteq> NilExpr
      then bind (call_expr r (snd attr)) (\<lambda>value.
             classAttributes r rest (AList.update (fst attr) value attributes))
      else classAttributes r rest (AList.update (fst attr) Null attributes))"

primrec classMethods ::
  "addr \<Rightarrow> (string \<times> string list \<times> block) list \<Rightarrow> (string \<times> zfunc) list \<times> zfunc option
     \<Rightarrow> (string \<times> zfunc) list \<times> zfunc option" where
  "classMethods e [] acc = acc"
| "classMethods e (method # rest) acc =
     (let zyloFunc = ZyloFunction (fst method) (fst (snd method)) (snd (snd method)) e
      in classMethods e rest
           (AList.update (fst method) zyloFunc (fst acc),
            if fst method = ''init'' then Some zyloFunc else snd acc))"

definition evaluateClassStatement ::
  "'w calls \<Rightarrow> string \<Rightarrow> (string \<times> expr) list \<Rightarrow> (string \<times> string list \<times> block) list
     \<Rightarrow> ('w, val) eval" where
  "evaluateClassStatement r name attrs methods s =
     bind (classAttributes r attrs []) (\<lambda>attributes s'.
       let (ms, init) = classMethods (env s') methods ([], None)
       in ok Null (env_Set (env s') name (ZyloClassV (ZyloClass name attributes ms init)) s')) s"

definition evaluateIdentifier :: "string \<Rightarrow> ('w, val) eval" where
  "evaluateIdentifier name s = (case env_Get s (env s) name of
      None \<Rightarrow> errorf (''variable no definida: '' @ name) s
    | Some value \<Rightarrow> ok value s)"

definition evaluateThisExpression :: "('w, val) eval" where
  "evaluateThisExpression s = (case env_Get s (env s) ''this'' of
      None \<Rightarrow> errorf (apostrophe @ ''this'' @ apostrophe @ '' is not available in this context'') s
    | Some value \<Rightarrow> ok value s)"

text \<open>The elements of a list literal, and the arguments of a constructor, in order.\<close>

primrec evaluateAll :: "'w calls \<Rightarrow> expr list \<Rightarrow> ('w, val list) eval" where
  "evaluateAll r [] = ok []"
| "evaluateAll r (el # rest) =
     bind (call_expr r el) (\<lambda>v. bind (evaluateAll r rest) (\<lambda>vs. ok (v # vs)))"

text \<open>The arguments of a call: a nil argument is reported with its position.\<close>

fun evaluateArguments :: "'w calls \<Rightarrow> nat \<Rightarrow> expr list \<Rightarrow> ('w, val list) eval" where
  "evaluateArguments r i [] = ok []"
| "evaluateArguments r i (arg # rest) =
     (if arg = NilExpr
      then errorf (''nil argument at position '' @ decimal i @ '' in call expression'')
      else bind (call_expr r arg) (\<lambda>v. bind (evaluateArguments r (Suc i) rest) (\<lambda>vs. ok (v # vs))))"

text \<open>
  The pairs of a hash literal. Go visits the entries of a map in no fixed order; the list
  gives the order of one run.
\<close>

primrec hashPairs :: "'w calls \<Rightarrow> (expr \<times> expr) list \<Rightarrow> (string \<times> val) list \<Rightarrow> ('w, val) eval" where
  "hashPairs r [] pairs = ok (Hash pairs)"
| "hashPairs r (p # rest) pairs =
     bind (call_expr r (fst p)) (\<lambda>keyVal. case keyVal of
         String keyStr \<Rightarrow> bind (call_expr r (snd p)) (\<lambda>v.
           hashPairs r rest (AList.update keyStr v pairs))
       | _ \<Rightarrow> errorf ''hash key must be string'')"

text \<open>\<^verbatim>\<open>string(b)\<close> for a byte \<open>b\<close>: the UTF-8 encoding of the code point \<open>b\<close>.\<close>

definition byte_string :: "char \<Rightarrow> string" where
  "byte_string c =
     (let b = (of_char c :: nat)
      in if b < 128 then [c] else [char_of (192 + b div 64), char_of (128 + b mod 64)])"

definition indexValue :: "val \<Rightarrow> val \<Rightarrow> ('w, val) eval" where
  "indexValue left index s =
     (if left = NilValue then errorf ''cannot index nil value'' s
      else case left of
          List a \<Rightarrow> (case index of
              Integer idx \<Rightarrow>
                if sint idx < 0 \<or> int (length (Items s a)) \<le> sint idx
                then errorf ''index out of bounds'' s
                else ok (Items s a ! nat (sint idx)) s
            | _ \<Rightarrow> errorf ''list index must be integer'' s)
        | String str \<Rightarrow> (case index of
              Integer idx \<Rightarrow>
                if sint idx < 0 \<or> int (length str) \<le> sint idx
                then errorf ''index out of bounds'' s
                else ok (String (byte_string (str ! nat (sint idx)))) s
            | _ \<Rightarrow> errorf ''string index must be integer'' s)
        | _ \<Rightarrow> errorf (''cannot index '' @ goType left) s)"

definition evaluatePrefixExpression :: "'w calls \<Rightarrow> string \<Rightarrow> expr \<Rightarrow> ('w, val) eval" where
  "evaluatePrefixExpression r operator right s =
     (if right = NilExpr then errorf ''nil right operand in prefix expression'' s
      else bind (call_expr r right) (\<lambda>v.
        if operator = ''!'' then ok (Boolean (\<not> isTruthy v))
        else if operator = ''-'' then (case v of
            Integer num \<Rightarrow> ok (Integer (- num))
          | _ \<Rightarrow> errorf (''operador '' @ apostrophe @ ''-'' @ apostrophe @ '' no soportado para tipo '' @ goType v))
        else errorf (''operador prefijo no soportado: '' @ operator)) s)"

text \<open>
  An assignment writes into the current environment (\<^verbatim>\<open>e.env.Set\<close>), wherever the
  variable was found. Both operands of every other operator are evaluated before
  \<^verbatim>\<open>applyOperator\<close>.
\<close>

definition evaluateInfixExpression ::
  "'w host \<Rightarrow> 'w calls \<Rightarrow> expr \<Rightarrow> string \<Rightarrow> expr \<Rightarrow> ('w, val) eval" where
  "evaluateInfixExpression h r left operator right s =
     (if left = NilExpr then errorf ''nil left operand in infix expression'' s
      else if right = NilExpr then errorf ''nil right operand in infix expression'' s
      else if operator = ''='' then (case left of
          Identifier name \<Rightarrow> bind (call_expr r right) (\<lambda>v s'.
            if env_Get s' (env s') name = None
            then errorf (''variable no definida: '' @ name) s'
            else ok v (env_Set (env s') name v s')) s
        | _ \<Rightarrow> errorf ''left side of assignment must be an identifier'' s)
      else bind (call_expr r left) (\<lambda>l.
             bind (call_expr r right) (\<lambda>v. lift (applyOperator h operator l v))) s)"

text \<open>Positional parameters: extra arguments are dropped, missing ones stay unbound.\<close>

definition bindParameters :: "addr \<Rightarrow> string list \<Rightarrow> val list \<Rightarrow> 'w state \<Rightarrow> 'w state" where
  "bindParameters funcEnv parameters args s =
     fold (\<lambda>(param, arg). env_Set funcEnv param arg) (zip parameters args) s"

definition callZyloFunction :: "'w calls \<Rightarrow> zfunc \<Rightarrow> val list \<Rightarrow> ('w, val) eval" where
  "callZyloFunction r fn args s =
     (let (funcEnv, s1) = NewChildEnvironment (fn_Env fn) s;
          s2 = bindParameters funcEnv (fn_Parameters fn) args s1
      in with_env funcEnv (call_block r (fn_Body fn)) s2)"

definition callBoundMethod :: "'w calls \<Rightarrow> zinstance \<Rightarrow> zfunc \<Rightarrow> val list \<Rightarrow> ('w, val) eval" where
  "callBoundMethod r instance method args s =
     (let (funcEnv, s1) = NewChildEnvironment (fn_Env method) s;
          s2 = env_Set funcEnv ''this'' (ZyloInstanceV instance) s1;
          s3 = bindParameters funcEnv (fn_Parameters method) args s2
      in with_env funcEnv (call_block r (fn_Body method)) s3)"

text \<open>
  \<^verbatim>\<open>instantiateClass\<close> copies each entry of \<^verbatim>\<open>class.Attributes\<close> into the new
  \<^verbatim>\<open>instance.Fields\<close>: the value of the entry, which for a List is the pointer.
\<close>

definition instantiateClass :: "'w calls \<Rightarrow> zclass \<Rightarrow> expr list \<Rightarrow> ('w, val) eval" where
  "instantiateClass r class args s =
     (let instance = ZyloInstance class
            (fold (\<lambda>(name, value). AList.update name value) (class_Attributes class) [])
      in case class_InitMethod class of
          None \<Rightarrow> ok (ZyloInstanceV instance) s
        | Some init \<Rightarrow> bind (evaluateAll r args) (\<lambda>evalArgs s'.
            let (funcEnv, s1) = NewChildEnvironment (fn_Env init) s';
                s2 = env_Set funcEnv ''this'' (ZyloInstanceV instance) s1;
                s3 = bindParameters funcEnv (fn_Parameters init) evalArgs s2
            in with_env funcEnv
                 (bind (call_block r (fn_Body init)) (\<lambda>_. ok (ZyloInstanceV instance))) s3) s)"

subsection \<open>Builtin functions\<close>

definition arithmeticBuiltin :: "'w host \<Rightarrow> string \<Rightarrow> string \<Rightarrow> val list \<Rightarrow> ('w, val) eval" where
  "arithmeticBuiltin h name operator args s =
     (if length args \<noteq> 2 then errorf (name @ ''() expects exactly 2 arguments'') s
      else lift (applyOperator h operator (args ! 0) (args ! 1)) s)"

definition lenBuiltin :: "val list \<Rightarrow> ('w, val) eval" where
  "lenBuiltin args s =
     (if length args \<noteq> 1 then errorf ''len() expects exactly 1 argument'' s
      else case args ! 0 of
          List a \<Rightarrow> ok (Integer (of_nat (length (Items s a)))) s
        | String str \<Rightarrow> ok (Integer (of_nat (length str))) s
        | arg \<Rightarrow> errorf (''len() not supported for '' @ goType arg) s)"

text \<open>
  The builtin \<^verbatim>\<open>try\<close> calls its first argument and, when that returns an error, its second
  with the message. A panic is no error value and passes through.
\<close>

definition tryBuiltin :: "'w calls \<Rightarrow> val list \<Rightarrow> ('w, val) eval" where
  "tryBuiltin r args s =
     (if length args \<noteq> 2 then errorf ''try() expects exactly 2 arguments'' s
      else case args ! 0 of
          ZyloFunctionV funcBlock \<Rightarrow> (case args ! 1 of
              ZyloFunctionV catchBlock \<Rightarrow> (case callZyloFunction r funcBlock [] s of
                  None \<Rightarrow> None
                | Some (Inl (Error msg), s') \<Rightarrow>
                    bind (callZyloFunction r catchBlock [String msg]) (\<lambda>_. ok Null) s'
                | Some (Inl Panic, s') \<Rightarrow> Some (Inl Panic, s')
                | Some (Inr result, s') \<Rightarrow> Some (Inr result, s'))
            | _ \<Rightarrow> errorf ''second argument to try() must be function'' s)
        | _ \<Rightarrow> errorf ''first argument to try() must be function'' s)"

definition callNative :: "'w host \<Rightarrow> string \<Rightarrow> val list \<Rightarrow> ('w, val) eval" where
  "callNative h name args s = (case native h name args (list_items s) (world s) of
      (NativeError msg, w) \<Rightarrow> errorf msg (s\<lparr>world := w\<rparr>)
    | (NativeValue v, w) \<Rightarrow> ok v (s\<lparr>world := w\<rparr>)
    | (NativeList items, w) \<Rightarrow>
        (let (a, s') = NewList items (s\<lparr>world := w\<rparr>) in ok (List a) s'))"

definition callBuiltin :: "'w host \<Rightarrow> 'w calls \<Rightarrow> builtin \<Rightarrow> val list \<Rightarrow> ('w, val) eval" where
  "callBuiltin h r f args s = (case f of
      ListGet a \<Rightarrow>
        if length args \<noteq> 1 then errorf ''List.Get() expects exactly 1 argument'' s
        else (case args ! 0 of
            Integer idx \<Rightarrow>
              if sint idx < 0 \<or> int (length (Items s a)) \<le> sint idx
              then errorf ''index out of bounds'' s
              else ok (Items s a ! nat (sint idx)) s
          | _ \<Rightarrow> errorf ''List.Get() index must be integer'' s)
    | ListAppend a \<Rightarrow>
        if length args \<noteq> 1 then errorf ''List.Append() expects exactly 1 argument'' s
        else ok Null (s\<lparr>list_items := (list_items s)[a := Items s a @ [args ! 0]]\<rparr>)
    | ListLen a \<Rightarrow> ok (Integer (of_nat (length (Items s a)))) s
    | Registered name \<Rightarrow>
        if name = ''try'' then tryBuiltin r args s
        else if name = ''add'' then arithmeticBuiltin h name ''+'' args s
        else if name = ''subtract'' then arithmeticBuiltin h name ''-'' args s
        else if name = ''multiply'' then arithmeticBuiltin h name ''*'' args s
        else if name = ''divide'' then arithmeticBuiltin h name ''/'' args s
        else if name = ''len'' then lenBuiltin args s
        else callNative h name args s)"

text \<open>
  \<^verbatim>\<open>callFunction\<close>. Its last branch asks whether the value is an \<^verbatim>\<open>*ast.Identifier\<close>, which
  no value is, so \<^verbatim>\<open>callBuiltinFunction\<close> is never reached.
\<close>

definition callFunction :: "'w host \<Rightarrow> 'w calls \<Rightarrow> val \<Rightarrow> val list \<Rightarrow> ('w, val) eval" where
  "callFunction h r fn args s =
     (if fn = NilValue then errorf ''cannot call nil function'' s
      else case fn of
          ZyloFunctionV f \<Rightarrow> callZyloFunction r f args s
        | BuiltinFunction f \<Rightarrow> callBuiltin h r f args s
        | BoundMethod instance method \<Rightarrow> callBoundMethod r instance method args s
        | _ \<Rightarrow> errorf (''no se puede llamar a: '' @ goType fn) s)"

definition evaluateCallExpression :: "'w host \<Rightarrow> 'w calls \<Rightarrow> expr \<Rightarrow> expr list \<Rightarrow> ('w, val) eval" where
  "evaluateCallExpression h r function arguments s =
     (if function = NilExpr then errorf ''nil function in call expression'' s
      else bind (call_expr r function) (\<lambda>fn. case fn of
          ZyloClassV class \<Rightarrow> instantiateClass r class arguments
        | _ \<Rightarrow> bind (evaluateArguments r 0 arguments) (\<lambda>args. callFunction h r fn args)) s)"

text \<open>
  \<^verbatim>\<open>evaluateMemberExpression\<close>: a dotted builtin name (\<^verbatim>\<open>show.log\<close>) is looked up whole
  before the object is evaluated. The branch for the namespace \<^verbatim>\<open>zyloruntime\<close> asks whether
  the evaluated object is an \<^verbatim>\<open>*ast.Identifier\<close>, which no value is; it is left out.
\<close>

definition memberOf :: "val \<Rightarrow> string \<Rightarrow> ('w, val) eval" where
  "memberOf obj propName s =
     (if obj = NilValue then errorf ''cannot access member on nil object'' s
      else case obj of
          List a \<Rightarrow>
            if propName = ''Get'' then ok (BuiltinFunction (ListGet a)) s
            else if propName = ''Append'' then ok (BuiltinFunction (ListAppend a)) s
            else if propName = ''Len'' then ok (BuiltinFunction (ListLen a)) s
            else errorf (''method '' @ apostrophe @ propName @ apostrophe @ '' not found on List'') s
        | ZyloInstanceV instance \<Rightarrow> (case map_of (inst_Fields instance) propName of
              Some field \<Rightarrow> ok field s
            | None \<Rightarrow> (case map_of (class_Methods (inst_Class instance)) propName of
                  Some method \<Rightarrow> ok (BoundMethod instance method) s
                | None \<Rightarrow> errorf (''property '' @ apostrophe @ propName @ apostrophe
                    @ '' not found on instance of '' @ class_Name (inst_Class instance)) s))
        | _ \<Rightarrow> errorf (''cannot access property '' @ apostrophe @ propName @ apostrophe
                    @ '' on '' @ goType obj) s)"

definition evaluateMemberExpression :: "'w calls \<Rightarrow> expr \<Rightarrow> string option \<Rightarrow> ('w, val) eval" where
  "evaluateMemberExpression r object property s =
     (if object = NilExpr then errorf ''nil object in member expression'' s
      else case property of
          None \<Rightarrow> errorf ''nil property in member expression'' s
        | Some propName \<Rightarrow>
            (case (case object of
                     Identifier objName \<Rightarrow> env_Get s (env s) (objName @ ''.'' @ propName)
                   | _ \<Rightarrow> None) of
                Some builtin \<Rightarrow> ok builtin s
              | None \<Rightarrow> bind (call_expr r object) (\<lambda>obj. memberOf obj propName) s))"

definition evaluateExpression :: "'w host \<Rightarrow> 'w calls \<Rightarrow> expr \<Rightarrow> ('w, val) eval" where
  "evaluateExpression h r exp s = (case exp of
      NilExpr \<Rightarrow> errorf ''nil expression passed to evaluator'' s
    | Identifier name \<Rightarrow> evaluateIdentifier name s
    | StringLiteral v \<Rightarrow> ok (String v) s
    | NumberLiteral lit \<Rightarrow> (case lit of
          FloatLit v \<Rightarrow> ok (Float v) s
        | IntLit v \<Rightarrow> ok (Integer v) s
        | OtherLit \<Rightarrow> ok (Integer 0) s)
    | BooleanLiteral v \<Rightarrow> ok (Boolean v) s
    | NullLiteral \<Rightarrow> ok Null s
    | CallExpression function arguments \<Rightarrow> evaluateCallExpression h r function arguments s
    | MemberExpression object property \<Rightarrow> evaluateMemberExpression r object property s
    | ListLiteral elements \<Rightarrow> bind (evaluateAll r elements) (\<lambda>items s'.
        let (a, s'') = NewList items s' in ok (List a) s'') s
    | HashLiteral pairs \<Rightarrow> hashPairs r pairs [] s
    | IndexExpression left index \<Rightarrow>
        bind (call_expr r left) (\<lambda>l. bind (call_expr r index) (\<lambda>i. indexValue l i)) s
    | InfixExpression left operator right \<Rightarrow> evaluateInfixExpression h r left operator right s
    | PrefixExpression operator right \<Rightarrow> evaluatePrefixExpression r operator right s
    | ThisExpression \<Rightarrow> evaluateThisExpression s
    | ImportExpression moduleName \<Rightarrow> evaluateImportStatement moduleName s
    | BlockExpression \<Rightarrow> errorf (''expresi'' @ o_acute @ ''n no soportada: *ast.BlockExpression'') s
    | ClassInstantiation \<Rightarrow>
        errorf (''expresi'' @ o_acute @ ''n no soportada: *ast.ClassInstantiation'') s)"

definition evaluateStatement :: "'w host \<Rightarrow> 'w calls \<Rightarrow> stmt \<Rightarrow> ('w, val) eval" where
  "evaluateStatement h r st s = (case st of
      NilStmt \<Rightarrow> errorf ''nil statement'' s
    | VarStatement name value \<Rightarrow> bind (evaluateVarStatement r name value) (\<lambda>_. ok Null) s
    | ExpressionStatement expression \<Rightarrow>
        if expression = NilExpr then ok Null s else call_expr r expression s
    | FuncStatement name parameters body \<Rightarrow>
        bind (evaluateFuncStatement name parameters body) (\<lambda>_. ok Null) s
    | ReturnStatement returnValue \<Rightarrow>
        if returnValue \<noteq> NilExpr then call_expr r returnValue s else ok Null s
    | IfStatement condition consequence alternative \<Rightarrow>
        evaluateIfStatement r condition consequence alternative s
    | WhileStatement condition body \<Rightarrow> evaluateWhileStatement r condition body s
    | ForInStatement name iterable body \<Rightarrow> evaluateForInStatement h r name iterable body s
    | BreakStatement \<Rightarrow> ok BreakValue s
    | ContinueStatement \<Rightarrow> ok ContinueValue s
    | ClassStatement name attrs methods \<Rightarrow> evaluateClassStatement r name attrs methods s
    | TryStatement tryBlock catchClause finallyBlock \<Rightarrow>
        evaluateTryStatement r tryBlock catchClause finallyBlock s
    | ThrowStatement exception \<Rightarrow> evaluateThrowStatement exception s
    | ImportStatement moduleName \<Rightarrow> evaluateImportStatement moduleName s
    | BlockStatement stmts \<Rightarrow> call_block r (Some stmts) s
    | CatchClause \<Rightarrow> errorf ''sentencia no soportada: *ast.CatchClause'' s)"

text \<open>
  The evaluator for calls nested at most \<open>n\<close> deep: every call of one of the three
  functions, and every further round of a \<^verbatim>\<open>while\<close> loop, takes one from the bound.
\<close>

primrec evaluator :: "'w host \<Rightarrow> nat \<Rightarrow> 'w calls" where
  "evaluator h 0 =
     \<lparr>call_stmt = (\<lambda>st s. None), call_expr = (\<lambda>exp s. None), call_block = (\<lambda>b s. None)\<rparr>"
| "evaluator h (Suc n) =
     \<lparr>call_stmt = evaluateStatement h (evaluator h n),
      call_expr = evaluateExpression h (evaluator h n),
      call_block = evaluateBlockStatement (evaluator h n)\<rparr>"

subsection \<open>Programs\<close>

primrec programLoop :: "'w calls \<Rightarrow> stmt list \<Rightarrow> ('w, unit) eval" where
  "programLoop r [] = ok ()"
| "programLoop r (st # rest) = bind (call_stmt r st) (\<lambda>_. programLoop r rest)"

definition EvaluateProgram :: "'w calls \<Rightarrow> stmt list \<Rightarrow> ('w, unit) eval" where
  "EvaluateProgram r program s =
     bind (programLoop r program) (\<lambda>_ s'. case env_Get s' (env s') ''main'' of
         Some (ZyloFunctionV fn) \<Rightarrow> bind (callZyloFunction r fn []) (\<lambda>_. ok ()) s'
       | _ \<Rightarrow> ok () s') s"

text \<open>\<^verbatim>\<open>NewEvaluator\<close>: the root environment with what \<^verbatim>\<open>InitBuiltins\<close> sets, in its order.\<close>

definition InitBuiltins :: "'w state \<Rightarrow> 'w state" where
  "InitBuiltins s = fold (\<lambda>(name, value). env_Set (env s) name value)
     [(''show.log'', BuiltinFunction (Registered ''show.log'')),
      (''read.line'', BuiltinFunction (Registered ''read.line'')),
      (''read.int'', BuiltinFunction (Registered ''read.int'')),
      (''string'', BuiltinFunction (Registered ''string'')),
      (''len'', BuiltinFunction (Registered ''len'')),
      (''split'', BuiltinFunction (Registered ''split'')),
      (''to_number'', BuiltinFunction (Registered ''to_number'')),
      (''zyloruntime.Split'', BuiltinFunction (Registered ''zyloruntime.Split'')),
      (''try'', BuiltinFunction (Registered ''try'')),
      (''zyloruntime'', String ''zyloruntime_namespace''),
      (''getInput'', BuiltinFunction (Registered ''getInput'')),
      (''null'', Null),
      (''add'', BuiltinFunction (Registered ''add'')),
      (''subtract'', BuiltinFunction (Registered ''subtract'')),
      (''multiply'', BuiltinFunction (Registered ''multiply'')),
      (''divide'', BuiltinFunction (Registered ''divide''))] s"

definition NewEvaluator :: "'w \<Rightarrow> 'w state" where
  "NewEvaluator w = InitBuiltins
     \<lparr>env = 0, environments = [\<lparr>variables = [], parent = None\<rparr>], list_items = [], world = w\<rparr>"

subsection \<open>A host for examples\<close>

text \<open>
  The example programs below use no float arithmetic, no formatting of floats, no iteration
  over strings and no native builtin, so the host they run on leaves all of these
  unspecified: an example that consulted one of them could not be evaluated.
\<close>

definition example_host :: "unit host" where
  "example_host = \<lparr>float_add = undefined, float_sub = undefined, float_mul = undefined,
     float_quo = undefined, float_of_int = undefined, fmt_g = undefined, runes = undefined,
     native = undefined\<rparr>"

subsection \<open>Notions used in the properties\<close>

text \<open>
  A computation keeps the current environment when the state it returns has the same
  \<open>env\<close> as the state it started in, whatever the result.
\<close>

definition keeps_env :: "('w, 'a) eval \<Rightarrow> bool" where
  "keeps_env m \<longleftrightarrow> (\<forall>s res s'. m s = Some (res, s') \<longrightarrow> env s' = env s)"

definition env_preserving :: "'w calls \<Rightarrow> bool" where
  "env_preserving r \<longleftrightarrow>
     (\<forall>st. keeps_env (call_stmt r st)) \<and> (\<forall>e. keeps_env (call_expr r e)) \<and>
     (\<forall>b. keeps_env (call_block r b))"

text \<open>
  The state in which \<^verbatim>\<open>evaluateBlockStatement\<close> runs the statements of a block: a new,
  empty environment whose parent is the current one has been made, and it is the current
  environment.
\<close>

definition enter_block :: "'w state \<Rightarrow> 'w state" where
  "enter_block s = s\<lparr>environments := environments s @ [\<lparr>variables = [], parent = Some (env s)\<rparr>],
     env := length (environments s)\<rparr>"

text \<open>
  The evaluator \<open>r\<close> cut down to statements and expressions evaluated with \<open>a\<close> as the
  current environment: in any other environment, and for every block, it gives no result.
\<close>

definition direct_in :: "addr \<Rightarrow> 'w calls \<Rightarrow> 'w calls" where
  "direct_in a r =
     \<lparr>call_stmt = (\<lambda>st s. if env s = a then call_stmt r st s else None),
      call_expr = (\<lambda>exp s. if env s = a then call_expr r exp s else None),
      call_block = (\<lambda>b s. None)\<rparr>"

section \<open>Properties\<close>

subsection \<open>Running programs\<close>

text \<open>
  Rules that evaluate a program on a concrete state: a call of the evaluator at a positive
  bound is the function it stands for at the bound below.
\<close>

lemma call_Suc:
  "call_stmt (evaluator h (Suc n)) = evaluateStatement h (evaluator h n)"
  "call_expr (evaluator h (Suc n)) = evaluateExpression h (evaluator h n)"
  "call_block (evaluator h (Suc n)) = evaluateBlockStatement (evaluator h n)"
  by simp_all

lemma call_numeral:
  "call_stmt (evaluator h (numeral k)) = evaluateStatement h (evaluator h (pred_numeral k))"
  "call_expr (evaluator h (numeral k)) = evaluateExpression h (evaluator h (pred_numeral k))"
  "call_block (evaluator h (numeral k)) = evaluateBlockStatement (evaluator h (pred_numeral k))"
  by (simp_all add: numeral_eq_Suc)

lemma call_0:
  "call_stmt (evaluator h 0) st s = None"
  "call_expr (evaluator h 0) e s = None"
  "call_block (evaluator h 0) b s = None"
  by simp_all

lemmas run_defs =
  ok_def errorf_def panic_def lift_def bind_def with_env_def
  NewChildEnvironment_def env_Get_def env_Set_def Items_def NewList_def
  evaluateVarStatement_def evaluateFuncStatement_def evaluateIfStatement_def
  evaluateTryStatement_def evaluateThrowStatement_def evaluateBlockStatement_def
  evaluateWhileStatement_def evaluateForInStatement_def evaluateImportStatement_def
  evaluateClassStatement_def evaluateIdentifier_def evaluateThisExpression_def
  indexValue_def evaluatePrefixExpression_def evaluateInfixExpression_def
  bindParameters_def callZyloFunction_def callBoundMethod_def instantiateClass_def
  arithmeticBuiltin_def lenBuiltin_def tryBuiltin_def callNative_def callBuiltin_def
  callFunction_def evaluateCallExpression_def memberOf_def evaluateMemberExpression_def
  evaluateExpression_def evaluateStatement_def
  applyOperator_def plus_operator_def quo_operator_def same_kind_equal_def numeric_operands_def
  isTruthy_def NewEvaluator_def InitBuiltins_def

lemmas run_simps = call_Suc call_numeral call_0 run_defs

declare evaluator.simps [simp del]

subsection \<open>Truthiness and operators\<close>

text \<open>
  C1. The claim: Null is false, a Boolean is its own value, an Integer is false exactly when
  it is zero, a String is false exactly when it is empty. On the code the last three hold,
  and the value that is false is the nil interface; the object \<^verbatim>\<open>&Null{}\<close>, which is what
  the literal \<^verbatim>\<open>nil\<close> and the builtin name \<^verbatim>\<open>null\<close> evaluate to, matches no type
  assertion of \<^verbatim>\<open>isTruthy\<close> and is true: \<^verbatim>\<open>if (null) { 1 } else { 2 }\<close> is 1.
\<close>

theorem isTruthy_Null:
  "isTruthy Null \<and> \<not> isTruthy NilValue \<and> isTruthy (Boolean b) = b \<and>
   isTruthy (Integer i) = (i \<noteq> 0) \<and> isTruthy (String str) = (str \<noteq> []) \<and>
   map_option fst (call_stmt (evaluator example_host 6)
      (IfStatement (Identifier ''null'')
         (Some [ExpressionStatement (NumberLiteral (IntLit 1))])
         (Some [ExpressionStatement (NumberLiteral (IntLit 2))]))
      (NewEvaluator ())) = Some (Inr (Integer 1)) \<and>
   map_option fst (call_stmt (evaluator example_host 6)
      (IfStatement NullLiteral
         (Some [ExpressionStatement (NumberLiteral (IntLit 1))])
         (Some [ExpressionStatement (NumberLiteral (IntLit 2))]))
      (NewEvaluator ())) = Some (Inr (Integer 1))"
  by (simp add: run_simps)

text \<open>
  C6, as stated, at \<^verbatim>\<open>"a" + true\<close>: one operand is a String, and the result is not a
  concatenation but the error after the \<^verbatim>\<open>switch\<close>.
\<close>

theorem plus_string_boolean_counterexample:
  "applyOperator example_host ''+'' (String ''a'') (Boolean True)
     = Inl (Error (''operador '' @ [CHR 0x27] @ ''+'' @ [CHR 0x27]
          @ '' no soportado para tipos *evaluator.String y *evaluator.Boolean''))"
  by (simp add: applyOperator_def plus_operator_def unsupported_def goType_def apostrophe_def)

text \<open>
  C6, amended. For the operator \<^verbatim>\<open>+\<close>: two numeric operands are added (Integer with
  Integer gives an Integer, wrapping; a Float operand makes the result a Float); a String
  with a String, an Integer or a Float, on either side, gives the concatenation, the number
  printed with \<^verbatim>\<open>%d\<close> or \<^verbatim>\<open>%g\<close>, so \<^verbatim>\<open>"a" + 1\<close> is \<^verbatim>\<open>"a1"\<close>; a String with an operand
  of any other kind is the unsupported-operator error.
\<close>

theorem plus_operator_cases:
  "applyOperator h ''+'' (Integer a) (Integer b) = Inr (Integer (a + b)) \<and>
   applyOperator h ''+'' (Integer a) (Float y) = Inr (Float (float_add h (float_of_int h a) y)) \<and>
   applyOperator h ''+'' (Float x) (Integer b) = Inr (Float (float_add h x (float_of_int h b))) \<and>
   applyOperator h ''+'' (Float x) (Float y) = Inr (Float (float_add h x y)) \<and>
   applyOperator h ''+'' (String l) (String r) = Inr (String (l @ r)) \<and>
   applyOperator h ''+'' (String l) (Integer b) = Inr (String (l @ fmt_d b)) \<and>
   applyOperator h ''+'' (String l) (Float y) = Inr (String (l @ fmt_g h y)) \<and>
   applyOperator h ''+'' (Integer a) (String r) = Inr (String (fmt_d a @ r)) \<and>
   applyOperator h ''+'' (Float x) (String r) = Inr (String (fmt_g h x @ r)) \<and>
   applyOperator h ''+'' (String ''a'') (Integer 1) = Inr (String ''a1'') \<and>
   applyOperator h ''+'' (String l) right = (case right of
        String r \<Rightarrow> Inr (String (l @ r))
      | Integer b \<Rightarrow> Inr (String (l @ fmt_d b))
      | Float y \<Rightarrow> Inr (String (l @ fmt_g h y))
      | NilValue \<Rightarrow> Inl (Error (''cannot apply operator '' @ apostrophe @ ''+'' @ apostrophe @ '' to nil values''))
      | _ \<Rightarrow> Inl (unsupported ''+'' (String l) right)) \<and>
   applyOperator h ''+'' left (String r) = (case left of
        String l \<Rightarrow> Inr (String (l @ r))
      | Integer a \<Rightarrow> Inr (String (fmt_d a @ r))
      | Float x \<Rightarrow> Inr (String (fmt_g h x @ r))
      | NilValue \<Rightarrow> Inl (Error (''cannot apply operator '' @ apostrophe @ ''+'' @ apostrophe @ '' to nil values''))
      | _ \<Rightarrow> Inl (unsupported ''+'' left (String r)))"
  by (simp add: applyOperator_def plus_operator_def fmt_d_def decimal.simps decimal_digit_def
      split: val.splits)

text \<open>
  C7. For every numeric dividend, Integer or Float, the operator \<^verbatim>\<open>/\<close> with a zero divisor,
  the Integer 0 or a Float that compares equal to 0, returns the division-by-zero error: an
  error value, neither a panic nor a Float.
\<close>

theorem division_by_zero_reported:
  assumes "left = Integer a \<or> left = Float x"
    and "right = Integer 0 \<or> (right = Float y \<and> float64_eq y 0)"
  shows "applyOperator h ''/'' left right = Inl division_by_zero"
  using assms by (auto simp: applyOperator_def quo_operator_def numeric_operands_def)

text \<open>\<^verbatim>\<open>5 / 0\<close> and \<^verbatim>\<open>5.0 / 0.0\<close> (the bit patterns of 5.0 and of 0.0).\<close>

theorem division_by_zero_reported_witness:
  "applyOperator example_host ''/'' (Integer 5) (Integer 0)
     = Inl (Error (''divisi'' @ [CHR 0xC3, CHR 0xB3] @ ''n por cero'')) \<and>
   applyOperator example_host ''/'' (Float 0x4014000000000000) (Float 0)
     = Inl (Error (''divisi'' @ [CHR 0xC3, CHR 0xB3] @ ''n por cero''))"
proof -
  have z: "float64_eq 0 0"
    by (simp add: float64_eq_def float64_isNaN_def float64_key_def float64_magnitude_def)
  show ?thesis
    using division_by_zero_reported [of "Integer 5" 5 0 "Integer 0" 0 example_host]
      division_by_zero_reported [of "Float 0x4014000000000000" 0 "0x4014000000000000" "Float 0" 0 example_host] z
    by (simp add: division_by_zero_def o_acute_def)
qed

text \<open>
  C10. \<^verbatim>\<open>==\<close> on two Null values is the Boolean false and \<^verbatim>\<open>!=\<close> on them is true: the
  dispatch has no case for Null, so Null is equal to no value, itself included.
\<close>

theorem applyOperator_Null_equality:
  "applyOperator h ''=='' Null Null = Inr (Boolean False) \<and>
   applyOperator h ''!='' Null Null = Inr (Boolean True) \<and>
   applyOperator h ''=='' Null right = (if right = NilValue
      then Inl (Error (''cannot apply operator '' @ apostrophe @ ''=='' @ apostrophe @ '' to nil values''))
      else Inr (Boolean False)) \<and>
   applyOperator h ''=='' left Null = (if left = NilValue
      then Inl (Error (''cannot apply operator '' @ apostrophe @ ''=='' @ apostrophe @ '' to nil values''))
      else Inr (Boolean False))"
  by (cases left) (simp_all add: applyOperator_def same_kind_equal_def split: val.splits)

subsection \<open>Every evaluation keeps the current environment\<close>

lemma keeps_envI: "(\<And>s res s'. m s = Some (res, s') \<Longrightarrow> env s' = env s) \<Longrightarrow> keeps_env m"
  by (simp add: keeps_env_def)

lemma keeps_envD: "keeps_env m \<Longrightarrow> m s = Some (res, s') \<Longrightarrow> env s' = env s"
  by (simp add: keeps_env_def)

lemma call_env:
  "call_stmt r st s = Some (res, s') \<Longrightarrow> env_preserving r \<Longrightarrow> env s' = env s"
  "call_expr r e s = Some (res, s') \<Longrightarrow> env_preserving r \<Longrightarrow> env s' = env s"
  "call_block r b s = Some (res, s') \<Longrightarrow> env_preserving r \<Longrightarrow> env s' = env s"
  by (auto simp: env_preserving_def keeps_env_def)

lemma env_env_Set [simp]: "env (env_Set e name v s) = env s"
  by (simp add: env_Set_def)

lemma env_bindParameters [simp]: "env (bindParameters e ps args s) = env s"
proof -
  have "env (fold (\<lambda>(param, arg). env_Set e param arg) xs s) = env s" for xs
    by (induction xs arbitrary: s) auto
  then show ?thesis by (simp add: bindParameters_def)
qed

lemma bindE:
  assumes "bind m f s = Some (res, s')"
  obtains (Failed) e where "m s = Some (Inl e, s')" and "res = Inl e"
    | (Returned) v s1 where "m s = Some (Inr v, s1)" and "f v s1 = Some (res, s')"
  using assms by (auto simp: bind_def split: option.splits sum.splits)

lemma ok_Some [simp]: "ok v s = Some (res, s') \<longleftrightarrow> res = Inr v \<and> s' = s"
  by (auto simp: ok_def)

lemma errorf_Some [simp]: "errorf msg s = Some (res, s') \<longleftrightarrow> res = Inl (Error msg) \<and> s' = s"
  by (auto simp: errorf_def)

lemma panic_Some [simp]: "panic s = Some (res, s') \<longleftrightarrow> res = Inl Panic \<and> s' = s"
  by (auto simp: panic_def)

lemma lift_Some [simp]: "lift x s = Some (res, s') \<longleftrightarrow> res = x \<and> s' = s"
  by (auto simp: lift_def)

lemma with_env_env: "with_env x m s = Some (res, s') \<Longrightarrow> env s' = env s"
  by (auto simp: with_env_def split: option.splits)

lemma evaluateVarStatement_env:
  "evaluateVarStatement r name value s = Some (res, s') \<Longrightarrow> env_preserving r \<Longrightarrow> env s' = env s"
  by (auto simp: evaluateVarStatement_def elim!: bindE dest!: call_env split: if_splits)

lemma evaluateFuncStatement_env:
  "evaluateFuncStatement name ps body s = Some (res, s') \<Longrightarrow> env s' = env s"
  by (auto simp: evaluateFuncStatement_def)

lemma evaluateIfStatement_env:
  "evaluateIfStatement r c cons alt s = Some (res, s') \<Longrightarrow> env_preserving r \<Longrightarrow> env s' = env s"
  by (auto simp: evaluateIfStatement_def elim!: bindE dest!: call_env split: if_splits)

lemma evaluateTryStatement_env:
  "evaluateTryStatement r t c f s = Some (res, s') \<Longrightarrow> env_preserving r \<Longrightarrow> env s' = env s"
  by (auto simp: evaluateTryStatement_def dest!: call_env split: if_splits)

lemma evaluateBlockStatement_env:
  "evaluateBlockStatement r b s = Some (res, s') \<Longrightarrow> env s' = env s"
  by (auto simp: evaluateBlockStatement_def NewChildEnvironment_def dest!: with_env_env)

lemma whileBody_env:
  "whileBody r stmts s = Some (res, s') \<Longrightarrow> env_preserving r \<Longrightarrow> env s' = env s"
  by (induction stmts arbitrary: s) (auto elim!: bindE dest!: call_env split: if_splits)

lemma evaluateWhileStatement_env:
  "evaluateWhileStatement r c body s = Some (res, s') \<Longrightarrow> env_preserving r \<Longrightarrow> env s' = env s"
  by (auto simp: evaluateWhileStatement_def elim!: bindE dest!: call_env whileBody_env
      split: if_splits option.splits)

lemma forLoop_env:
  "forLoop r name body els s = Some (res, s') \<Longrightarrow> env_preserving r \<Longrightarrow> env s' = env s"
  by (induction els arbitrary: s) (auto elim!: bindE dest!: call_env split: if_splits)

lemma evaluateForInStatement_env:
  "evaluateForInStatement h r name it body s = Some (res, s') \<Longrightarrow> env_preserving r \<Longrightarrow> env s' = env s"
  by (auto simp: evaluateForInStatement_def elim!: bindE dest!: call_env forLoop_env
      split: val.splits)

lemma evaluateImportStatement_env:
  "evaluateImportStatement m s = Some (res, s') \<Longrightarrow> env s' = env s"
  by (auto simp: evaluateImportStatement_def split: option.splits if_splits)

lemma classAttributes_env:
  "classAttributes r attrs acc s = Some (res, s') \<Longrightarrow> env_preserving r \<Longrightarrow> env s' = env s"
  by (induction attrs arbitrary: s acc) (auto elim!: bindE dest!: call_env split: if_splits)

lemma evaluateClassStatement_env:
  "evaluateClassStatement r name attrs ms s = Some (res, s') \<Longrightarrow> env_preserving r \<Longrightarrow> env s' = env s"
  by (auto simp: evaluateClassStatement_def elim!: bindE dest!: classAttributes_env
      split: prod.splits)

lemma evaluateIdentifier_env: "evaluateIdentifier name s = Some (res, s') \<Longrightarrow> env s' = env s"
  by (auto simp: evaluateIdentifier_def split: option.splits)

lemma evaluateThisExpression_env: "evaluateThisExpression s = Some (res, s') \<Longrightarrow> env s' = env s"
  by (auto simp: evaluateThisExpression_def split: option.splits)

lemma evaluateAll_env:
  "evaluateAll r es s = Some (res, s') \<Longrightarrow> env_preserving r \<Longrightarrow> env s' = env s"
  by (induction es arbitrary: s res) (auto elim!: bindE dest!: call_env)

lemma evaluateArguments_env:
  "evaluateArguments r i es s = Some (res, s') \<Longrightarrow> env_preserving r \<Longrightarrow> env s' = env s"
  by (induction es arbitrary: s res i) (auto elim!: bindE dest!: call_env split: if_splits)

lemma hashPairs_env:
  "hashPairs r ps acc s = Some (res, s') \<Longrightarrow> env_preserving r \<Longrightarrow> env s' = env s"
  by (induction ps arbitrary: s acc) (auto elim!: bindE dest!: call_env split: val.splits)

lemma indexValue_env: "indexValue l i s = Some (res, s') \<Longrightarrow> env s' = env s"
  by (auto simp: indexValue_def split: if_splits val.splits)

lemma evaluatePrefixExpression_env:
  "evaluatePrefixExpression r op e s = Some (res, s') \<Longrightarrow> env_preserving r \<Longrightarrow> env s' = env s"
  by (auto simp: evaluatePrefixExpression_def elim!: bindE dest!: call_env
      split: if_splits val.splits)

lemma evaluateInfixExpression_env:
  "evaluateInfixExpression h r l op e s = Some (res, s') \<Longrightarrow> env_preserving r \<Longrightarrow> env s' = env s"
  by (auto simp: evaluateInfixExpression_def elim!: bindE dest!: call_env
      split: if_splits expr.splits)

lemma callZyloFunction_env: "callZyloFunction r fn args s = Some (res, s') \<Longrightarrow> env s' = env s"
  by (auto simp: callZyloFunction_def NewChildEnvironment_def Let_def dest!: with_env_env)

lemma callBoundMethod_env: "callBoundMethod r i m args s = Some (res, s') \<Longrightarrow> env s' = env s"
  by (auto simp: callBoundMethod_def NewChildEnvironment_def Let_def dest!: with_env_env)

lemma instantiateClass_env:
  "instantiateClass r c args s = Some (res, s') \<Longrightarrow> env_preserving r \<Longrightarrow> env s' = env s"
  by (auto simp: instantiateClass_def NewChildEnvironment_def Let_def elim!: bindE
      dest!: with_env_env evaluateAll_env split: option.splits)

lemma arithmeticBuiltin_env: "arithmeticBuiltin h name op args s = Some (res, s') \<Longrightarrow> env s' = env s"
  by (auto simp: arithmeticBuiltin_def split: if_splits)

lemma lenBuiltin_env: "lenBuiltin args s = Some (res, s') \<Longrightarrow> env s' = env s"
  by (auto simp: lenBuiltin_def split: if_splits val.splits)

lemma tryBuiltin_env: "tryBuiltin r args s = Some (res, s') \<Longrightarrow> env s' = env s"
  by (auto simp: tryBuiltin_def elim!: bindE dest!: callZyloFunction_env
      split: if_splits val.splits option.splits sum.splits error.splits)

lemma callNative_env: "callNative h name args s = Some (res, s') \<Longrightarrow> env s' = env s"
  by (auto simp: callNative_def NewList_def split: prod.splits native_result.splits)

lemma callBuiltin_env: "callBuiltin h r f args s = Some (res, s') \<Longrightarrow> env s' = env s"
  by (auto simp: callBuiltin_def
      dest!: tryBuiltin_env arithmeticBuiltin_env lenBuiltin_env callNative_env
      split: builtin.splits if_splits val.splits)

lemma callFunction_env: "callFunction h r fn args s = Some (res, s') \<Longrightarrow> env s' = env s"
  by (auto simp: callFunction_def
      dest!: callZyloFunction_env callBuiltin_env callBoundMethod_env
      split: if_splits val.splits)

lemma evaluateCallExpression_env:
  "evaluateCallExpression h r f args s = Some (res, s') \<Longrightarrow> env_preserving r \<Longrightarrow> env s' = env s"
  by (auto simp: evaluateCallExpression_def elim!: bindE
      dest!: call_env instantiateClass_env evaluateArguments_env callFunction_env
      split: if_splits val.splits)

lemma memberOf_env: "memberOf obj p s = Some (res, s') \<Longrightarrow> env s' = env s"
  by (auto simp: memberOf_def split: if_splits val.splits option.splits)

lemma evaluateMemberExpression_env:
  "evaluateMemberExpression r obj p s = Some (res, s') \<Longrightarrow> env_preserving r \<Longrightarrow> env s' = env s"
  by (auto simp: evaluateMemberExpression_def elim!: bindE dest!: call_env memberOf_env
      split: if_splits option.splits)

lemma evaluateExpression_env:
  "evaluateExpression h r e s = Some (res, s') \<Longrightarrow> env_preserving r \<Longrightarrow> env s' = env s"
  by (auto simp: evaluateExpression_def NewList_def elim!: bindE
      dest!: call_env evaluateIdentifier_env evaluateCallExpression_env
        evaluateMemberExpression_env evaluateAll_env hashPairs_env indexValue_env
        evaluateInfixExpression_env evaluatePrefixExpression_env evaluateThisExpression_env
        evaluateImportStatement_env
      split: expr.splits numlit.splits)

lemma evaluateStatement_env:
  "evaluateStatement h r st s = Some (res, s') \<Longrightarrow> env_preserving r \<Longrightarrow> env s' = env s"
  by (auto simp: evaluateStatement_def evaluateThrowStatement_def elim!: bindE
      dest!: call_env evaluateVarStatement_env evaluateFuncStatement_env evaluateIfStatement_env
        evaluateWhileStatement_env evaluateForInStatement_env evaluateClassStatement_env
        evaluateTryStatement_env evaluateImportStatement_env
      split: stmt.splits if_splits)

lemma env_preserving_evaluator: "env_preserving (evaluator h n)"
proof (induction n)
  case 0
  show ?case by (simp add: env_preserving_def keeps_env_def call_0)
next
  case (Suc n)
  have "keeps_env (evaluateStatement h (evaluator h n) st)" for st
    using Suc by (auto intro!: keeps_envI dest!: evaluateStatement_env)
  moreover have "keeps_env (evaluateExpression h (evaluator h n) e)" for e
    using Suc by (auto intro!: keeps_envI dest!: evaluateExpression_env)
  moreover have "keeps_env (evaluateBlockStatement (evaluator h n) b)" for b
    by (auto intro!: keeps_envI dest!: evaluateBlockStatement_env)
  ultimately show ?case by (simp add: env_preserving_def call_Suc)
qed

subsection \<open>Blocks, loops and sentinels\<close>

lemma blockLoop_append:
  assumes "blockLoop r pre lv s1 = Some (Inr v, s2)"
    and "v \<noteq> BreakValue" and "v \<noteq> ContinueValue"
  shows "blockLoop r (pre @ others) lv s1 = blockLoop r others v s2"
  using assms
proof (induction pre arbitrary: lv s1)
  case Nil
  then show ?case by simp
next
  case (Cons x pre)
  then show ?case
    by (auto simp: bind_def split: option.splits sum.splits if_splits)
qed

lemma whileBody_append:
  assumes "whileBody r pre s1 = Some (Inr BodyDone, s2)"
  shows "whileBody r (pre @ others) s1 = whileBody r others s2"
  using assms
proof (induction pre arbitrary: s1)
  case Nil
  then show ?case by simp
next
  case (Cons x pre)
  then show ?case
    by (auto simp: bind_def split: option.splits sum.splits if_splits)
qed

lemma evaluateBlockStatement_unfold:
  "evaluateBlockStatement r (Some stmts) s =
     map_option (\<lambda>(res, s'). (res, s'\<lparr>env := env s\<rparr>)) (blockLoop r stmts Null (enter_block s))"
  by (simp add: evaluateBlockStatement_def NewChildEnvironment_def with_env_def enter_block_def
      map_option_case split: option.split prod.split)

text \<open>
  C5. A block that sees a Break or Continue value as the result of a statement evaluates
  none of the statements after it and returns that value: when the statements \<open>pre\<close> before
  it have run without a sentinel, the result of the block is the sentinel, whatever \<open>rest\<close>
  is. And a \<^verbatim>\<open>break\<close> nested in an \<^verbatim>\<open>if\<close> inside a \<^verbatim>\<open>while\<close> ends the whole loop:
  when the loop condition is true, the body statements before the \<^verbatim>\<open>if\<close> have run to
  their end, and the branch the \<^verbatim>\<open>if\<close> takes (the consequence when its condition is
  true, the alternative when it is not) reaches, after statements that run without a
  sentinel, a statement whose result is the Break value, then the \<^verbatim>\<open>while\<close> statement
  returns Null from the state that statement leaves, with the environment of the loop
  restored; neither the rest of the branch, nor the statements after the \<^verbatim>\<open>if\<close>, nor a
  further round are evaluated. A \<^verbatim>\<open>break\<close> statement is such a statement; so is, by the
  first part, an \<^verbatim>\<open>if\<close> nested deeper whose branch breaks.
\<close>

theorem sentinel_ends_block:
  "(blockLoop r pre Null (enter_block s) = Some (Inr v, s2) \<and> v \<noteq> BreakValue \<and> v \<noteq> ContinueValue \<and>
    call_stmt r st s2 = Some (Inr b, s3) \<and> (b = BreakValue \<or> b = ContinueValue)
    \<longrightarrow> evaluateBlockStatement r (Some (pre @ st # rest)) s = Some (Inr b, s3\<lparr>env := env s\<rparr>))
   \<and>
   (call_expr (evaluator h (Suc (Suc n))) c s = Some (Inr cv, s1) \<and> isTruthy cv \<and>
    whileBody (evaluator h (Suc (Suc n))) pre' s1 = Some (Inr BodyDone, s2') \<and>
    call_expr (evaluator h (Suc n)) c2 s2' = Some (Inr cv2, s3') \<and>
    ((isTruthy cv2 \<and> consequence = Some (bpre @ bst # others)) \<or>
     (\<not> isTruthy cv2 \<and> alternative = Some (bpre @ bst # others))) \<and>
    blockLoop (evaluator h n) bpre Null (enter_block s3') = Some (Inr bv, s4) \<and>
    bv \<noteq> BreakValue \<and> bv \<noteq> ContinueValue \<and>
    call_stmt (evaluator h n) bst s4 = Some (Inr BreakValue, s5)
    \<longrightarrow> call_stmt (evaluator h (Suc (Suc (Suc n))))
          (WhileStatement c (Some (pre' @ IfStatement c2 consequence alternative # rest'))) s
        = Some (Inr Null, s5\<lparr>env := env s3'\<rparr>))
   \<and>
   call_stmt (evaluator h (Suc n)) BreakStatement s = Some (Inr BreakValue, s)"
proof (intro conjI impI)
  assume a: "blockLoop r pre Null (enter_block s) = Some (Inr v, s2) \<and> v \<noteq> BreakValue \<and> v \<noteq> ContinueValue \<and>
    call_stmt r st s2 = Some (Inr b, s3) \<and> (b = BreakValue \<or> b = ContinueValue)"
  then have "blockLoop r (pre @ st # rest) Null (enter_block s) = blockLoop r (st # rest) v s2"
    by (intro blockLoop_append) auto
  also from a have "\<dots> = Some (Inr b, s3)"
    by (auto simp: bind_def ok_def)
  finally show "evaluateBlockStatement r (Some (pre @ st # rest)) s = Some (Inr b, s3\<lparr>env := env s\<rparr>)"
    by (simp add: evaluateBlockStatement_unfold)
next
  show "call_stmt (evaluator h (Suc n)) BreakStatement s = Some (Inr BreakValue, s)"
    by (simp add: call_Suc evaluateStatement_def ok_def)
next
  let ?r1 = "evaluator h (Suc n)"
  let ?r2 = "evaluator h (Suc (Suc n))"
  let ?if = "IfStatement c2 consequence alternative"
  let ?branch = "Some (bpre @ bst # others)"
  assume a: "call_expr ?r2 c s = Some (Inr cv, s1) \<and> isTruthy cv \<and>
    whileBody ?r2 pre' s1 = Some (Inr BodyDone, s2') \<and>
    call_expr ?r1 c2 s2' = Some (Inr cv2, s3') \<and>
    ((isTruthy cv2 \<and> consequence = Some (bpre @ bst # others)) \<or>
     (\<not> isTruthy cv2 \<and> alternative = Some (bpre @ bst # others))) \<and>
    blockLoop (evaluator h n) bpre Null (enter_block s3') = Some (Inr bv, s4) \<and>
    bv \<noteq> BreakValue \<and> bv \<noteq> ContinueValue \<and>
    call_stmt (evaluator h n) bst s4 = Some (Inr BreakValue, s5)"
  then have "blockLoop (evaluator h n) (bpre @ bst # others) Null (enter_block s3')
      = blockLoop (evaluator h n) (bst # others) bv s4"
    by (intro blockLoop_append) auto
  also from a have "\<dots> = Some (Inr BreakValue, s5)"
    by (simp add: bind_def ok_def)
  finally have blk: "call_block ?r1 ?branch s3' = Some (Inr BreakValue, s5\<lparr>env := env s3'\<rparr>)"
    by (simp add: call_Suc evaluateBlockStatement_unfold)
  from a have c2: "call_expr ?r1 c2 s2' = Some (Inr cv2, s3')" by simp
  from a have "(isTruthy cv2 \<and> consequence = ?branch) \<or> (\<not> isTruthy cv2 \<and> alternative = ?branch)"
    by simp
  then have "evaluateIfStatement ?r1 c2 consequence alternative s2'
      = Some (Inr BreakValue, s5\<lparr>env := env s3'\<rparr>)"
    using c2 blk by (auto simp: evaluateIfStatement_def bind_def)
  then have ifst: "call_stmt ?r2 ?if s2' = Some (Inr BreakValue, s5\<lparr>env := env s3'\<rparr>)"
    by (simp add: call_Suc [of h "Suc n"] evaluateStatement_def)
  have "whileBody ?r2 (pre' @ ?if # rest') s1 = whileBody ?r2 (?if # rest') s2'"
    using a by (intro whileBody_append) simp
  also have "\<dots> = Some (Inr BodyBreak, s5\<lparr>env := env s3'\<rparr>)"
    using ifst by (simp add: bind_def ok_def)
  finally have "whileBody ?r2 (pre' @ ?if # rest') s1 = Some (Inr BodyBreak, s5\<lparr>env := env s3'\<rparr>)" .
  with a show "call_stmt (evaluator h (Suc (Suc (Suc n))))
          (WhileStatement c (Some (pre' @ ?if # rest'))) s = Some (Inr Null, s5\<lparr>env := env s3'\<rparr>)"
    by (simp add: call_Suc [of h "Suc (Suc n)"] evaluateStatement_def evaluateWhileStatement_def bind_def ok_def)
qed

text \<open>
  A block \<^verbatim>\<open>{ var x; continue; var z }\<close>, and the loops
  \<^verbatim>\<open>while (true) { var x; if (false) { } else { var y; break; var w }; var z }\<close> and
  \<^verbatim>\<open>while (true) { var x; if (true) { var y; break; var w }; var z }\<close>.
\<close>

theorem sentinel_ends_block_witness:
  "evaluateBlockStatement (evaluator example_host 2)
     (Some ([VarStatement ''x'' NullLiteral] @ ContinueStatement # [VarStatement ''z'' NullLiteral]))
     (NewEvaluator ())
   = Some (Inr ContinueValue,
       (env_Set 1 ''x'' Null (enter_block (NewEvaluator ())))\<lparr>env := env (NewEvaluator ())\<rparr>) \<and>
   call_stmt (evaluator example_host (Suc (Suc (Suc 2))))
     (WhileStatement (BooleanLiteral True)
        (Some ([VarStatement ''x'' NullLiteral]
           @ IfStatement (BooleanLiteral False) (Some [])
               (Some ([VarStatement ''y'' NullLiteral] @ BreakStatement # [VarStatement ''w'' NullLiteral]))
           # [VarStatement ''z'' NullLiteral])))
     (NewEvaluator ())
   = Some (Inr Null,
       (env_Set 1 ''y'' Null (enter_block (env_Set 0 ''x'' Null (NewEvaluator ()))))
         \<lparr>env := env (env_Set 0 ''x'' Null (NewEvaluator ()))\<rparr>) \<and>
   call_stmt (evaluator example_host (Suc (Suc (Suc 2))))
     (WhileStatement (BooleanLiteral True)
        (Some ([VarStatement ''x'' NullLiteral]
           @ IfStatement (BooleanLiteral True)
               (Some ([VarStatement ''y'' NullLiteral] @ BreakStatement # [VarStatement ''w'' NullLiteral]))
               None
           # [VarStatement ''z'' NullLiteral])))
     (NewEvaluator ())
   = Some (Inr Null,
       (env_Set 1 ''y'' Null (enter_block (env_Set 0 ''x'' Null (NewEvaluator ()))))
         \<lparr>env := env (env_Set 0 ''x'' Null (NewEvaluator ()))\<rparr>)"
proof -
  let ?s = "NewEvaluator ()"
  let ?sx = "env_Set 0 ''x'' Null ?s"
  let ?sy = "env_Set 1 ''y'' Null (enter_block ?sx)"
  let ?r2 = "evaluator example_host 2"
  let ?r3 = "evaluator example_host (Suc 2)"
  let ?r4 = "evaluator example_host (Suc (Suc 2))"
  let ?branch = "[VarStatement ''y'' NullLiteral] @ BreakStatement # [VarStatement ''w'' NullLiteral]"
  have e0: "env ?s = 0" and l1: "length (environments ?s) = 1"
    by (simp_all add: NewEvaluator_def InitBuiltins_def env_Set_def)
  have lx: "length (environments ?sx) = 1"
    using l1 by (simp add: env_Set_def)
  have b1: "blockLoop ?r2 [VarStatement ''x'' NullLiteral] Null (enter_block ?s)
      = Some (Inr Null, env_Set 1 ''x'' Null (enter_block ?s))"
    by (simp add: call_numeral call_Suc evaluateStatement_def evaluateVarStatement_def
        evaluateExpression_def bind_def ok_def enter_block_def l1)
  have b2: "call_stmt ?r2 ContinueStatement (env_Set 1 ''x'' Null (enter_block ?s))
      = Some (Inr ContinueValue, env_Set 1 ''x'' Null (enter_block ?s))"
    by (simp add: call_numeral evaluateStatement_def ok_def)
  have w1: "call_expr ?r4 (BooleanLiteral True) ?s = Some (Inr (Boolean True), ?s)"
    by (simp add: call_numeral call_Suc evaluateExpression_def ok_def)
  have w2: "whileBody ?r4 [VarStatement ''x'' NullLiteral] ?s = Some (Inr BodyDone, ?sx)"
    by (simp add: call_numeral call_Suc evaluateStatement_def evaluateVarStatement_def
        evaluateExpression_def bind_def ok_def e0)
  have w3f: "call_expr ?r3 (BooleanLiteral False) ?sx = Some (Inr (Boolean False), ?sx)"
    by (simp add: call_numeral call_Suc evaluateExpression_def ok_def)
  have w3t: "call_expr ?r3 (BooleanLiteral True) ?sx = Some (Inr (Boolean True), ?sx)"
    by (simp add: call_numeral call_Suc evaluateExpression_def ok_def)
  have w4: "blockLoop ?r2 [VarStatement ''y'' NullLiteral] Null (enter_block ?sx) = Some (Inr Null, ?sy)"
    by (simp add: call_numeral call_Suc evaluateStatement_def evaluateVarStatement_def
        evaluateExpression_def bind_def ok_def enter_block_def lx)
  have w5: "call_stmt ?r2 BreakStatement ?sy = Some (Inr BreakValue, ?sy)"
    by (simp add: call_numeral evaluateStatement_def ok_def)
  have t: "isTruthy (Boolean True)" and f: "\<not> isTruthy (Boolean False)"
    by (simp_all add: isTruthy_def)
  note A = sentinel_ends_block [where r = ?r2 and pre = "[VarStatement ''x'' NullLiteral]"
      and s = ?s and v = Null and ?s2.0 = "env_Set 1 ''x'' Null (enter_block ?s)"
      and st = ContinueStatement and b = ContinueValue
      and ?s3.0 = "env_Set 1 ''x'' Null (enter_block ?s)"
      and rest = "[VarStatement ''z'' NullLiteral]"
      and h = example_host and n = 2 and c = "BooleanLiteral True" and cv = "Boolean True"
      and ?s1.0 = ?s and pre' = "[VarStatement ''x'' NullLiteral]"
      and ?s2' = ?sx and ?c2.0 = "BooleanLiteral False"
      and ?cv2.0 = "Boolean False" and ?s3' = ?sx
      and consequence = "Some []" and alternative = "Some ?branch"
      and bpre = "[VarStatement ''y'' NullLiteral]" and bst = BreakStatement
      and others = "[VarStatement ''w'' NullLiteral]" and bv = Null and ?s4.0 = ?sy and ?s5.0 = ?sy
      and rest' = "[VarStatement ''z'' NullLiteral]"]
  note B = sentinel_ends_block [where r = ?r2 and pre = "[VarStatement ''x'' NullLiteral]"
      and s = ?s and v = Null and ?s2.0 = "env_Set 1 ''x'' Null (enter_block ?s)"
      and st = ContinueStatement and b = ContinueValue
      and ?s3.0 = "env_Set 1 ''x'' Null (enter_block ?s)"
      and rest = "[VarStatement ''z'' NullLiteral]"
      and h = example_host and n = 2 and c = "BooleanLiteral True" and cv = "Boolean True"
      and ?s1.0 = ?s and pre' = "[VarStatement ''x'' NullLiteral]"
      and ?s2' = ?sx and ?c2.0 = "BooleanLiteral True"
      and ?cv2.0 = "Boolean True" and ?s3' = ?sx
      and consequence = "Some ?branch" and alternative = None
      and bpre = "[VarStatement ''y'' NullLiteral]" and bst = BreakStatement
      and others = "[VarStatement ''w'' NullLiteral]" and bv = Null and ?s4.0 = ?sy and ?s5.0 = ?sy
      and rest' = "[VarStatement ''z'' NullLiteral]"]
  from A b1 b2 have 1: "evaluateBlockStatement ?r2
     (Some ([VarStatement ''x'' NullLiteral] @ ContinueStatement # [VarStatement ''z'' NullLiteral])) ?s
     = Some (Inr ContinueValue, (env_Set 1 ''x'' Null (enter_block ?s))\<lparr>env := env ?s\<rparr>)"
    by blast
  from A w1 w2 w3f w4 w5 t f have 2: "call_stmt (evaluator example_host (Suc (Suc (Suc 2))))
     (WhileStatement (BooleanLiteral True)
        (Some ([VarStatement ''x'' NullLiteral]
           @ IfStatement (BooleanLiteral False) (Some []) (Some ?branch)
           # [VarStatement ''z'' NullLiteral]))) ?s
     = Some (Inr Null, ?sy\<lparr>env := env ?sx\<rparr>)"
    by blast
  from B w1 w2 w3t w4 w5 t have 3: "call_stmt (evaluator example_host (Suc (Suc (Suc 2))))
     (WhileStatement (BooleanLiteral True)
        (Some ([VarStatement ''x'' NullLiteral]
           @ IfStatement (BooleanLiteral True) (Some ?branch) None
           # [VarStatement ''z'' NullLiteral]))) ?s
     = Some (Inr Null, ?sy\<lparr>env := env ?sx\<rparr>)"
    by blast
  from 1 2 3 show ?thesis by blast
qed

text \<open>
  C9. Evaluating a block returns with the current environment it was entered with, on
  every way out: whatever the result (a value, a Break or Continue value, an error, a panic)
  and whatever the evaluator for the statements does. The statements are evaluated from the
  state \<open>enter_block s\<close>, in which the current environment is a new one, empty, with the
  old current environment as parent.
\<close>

theorem block_scope:
  "(evaluateBlockStatement r b s = Some (res, s') \<longrightarrow> env s' = env s) \<and>
   (call_stmt (evaluator h n) (BlockStatement stmts) s = Some (res, s') \<longrightarrow> env s' = env s) \<and>
   evaluateBlockStatement r (Some stmts) s =
     map_option (\<lambda>(res, s'). (res, s'\<lparr>env := env s\<rparr>)) (blockLoop r stmts Null (enter_block s)) \<and>
   env (enter_block s) = length (environments s) \<and>
   environments (enter_block s) = environments s @ [\<lparr>variables = [], parent = Some (env s)\<rparr>]"
  using env_preserving_evaluator [of h n]
  by (auto simp: evaluateBlockStatement_unfold enter_block_def
      dest: evaluateBlockStatement_env call_env)

text \<open>
  The three ways out: to the end, on a sentinel, on an error.
\<close>

theorem block_scope_witness:
  "map_option (\<lambda>(res, s'). (res, env s'))
     (evaluateBlockStatement (evaluator example_host 3)
        (Some [VarStatement ''x'' (NumberLiteral (IntLit 1))]) (NewEvaluator ()))
     = Some (Inr Null, env (NewEvaluator ())) \<and>
   map_option (\<lambda>(res, s'). (res, env s'))
     (evaluateBlockStatement (evaluator example_host 3)
        (Some [BreakStatement, VarStatement ''x'' (NumberLiteral (IntLit 1))]) (NewEvaluator ()))
     = Some (Inr BreakValue, env (NewEvaluator ())) \<and>
   map_option (\<lambda>(res, s'). (res, env s'))
     (evaluateBlockStatement (evaluator example_host 3)
        (Some [ExpressionStatement (Identifier ''y'')]) (NewEvaluator ()))
     = Some (Inl (Error ''variable no definida: y''), env (NewEvaluator ()))"
proof -
  have restored: "map_option (\<lambda>(res, s'). (res, env s')) (evaluateBlockStatement r b s) = Some (x, env s)"
    if "map_option fst (evaluateBlockStatement r b s) = Some x" for r :: "unit calls" and b s x
  proof -
    from that obtain s' where run: "evaluateBlockStatement r b s = Some (x, s')"
      by (cases "evaluateBlockStatement r b s") auto
    from block_scope [of r b s x s'] run have "env s' = env s" by simp
    with run show ?thesis by simp
  qed
  show ?thesis
    by (intro conjI restored) (simp_all add: run_simps)
qed

subsection \<open>Try, throw and import\<close>

text \<open>
  C3, as stated, at \<^verbatim>\<open>try { y } catch (e) { var caught = e } finally { var done = true }\<close>
  with \<^verbatim>\<open>y\<close> undefined: the error of the body is what the try statement returns.
\<close>

theorem try_returns_error_counterexample:
  "map_option fst
     (call_stmt (evaluator example_host 5)
        (TryStatement (Some [ExpressionStatement (Identifier ''y'')])
           (Some (Some ''e'', Some [VarStatement ''caught'' (Identifier ''e'')]))
           (Some [VarStatement ''done'' (BooleanLiteral True)]))
        (NewEvaluator ()))
     = Some (Inl (Error ''variable no definida: y''))"
  by (simp add: run_simps)

text \<open>
  C3, amended. A try statement is evaluated as the block of its body and nothing else: it
  has the result of the block statement \<^verbatim>\<open>{ body }\<close>, whatever the catch clause and the
  finally block are; so when a statement of the body returns an error, the try statement
  returns that error to its caller, with the environment restored, and neither catch nor
  finally runs. A throw statement returns Null and changes nothing: it binds and raises
  nothing.
\<close>

theorem try_is_block:
  "call_stmt (evaluator h n) (TryStatement (Some body) catchClause finallyBlock) s
     = call_stmt (evaluator h n) (BlockStatement body) s \<and>
   evaluateTryStatement r (Some body) catchClause finallyBlock s = call_block r (Some body) s \<and>
   (blockLoop (evaluator h n) pre Null (enter_block s) = Some (Inr v, s2) \<and>
    v \<noteq> BreakValue \<and> v \<noteq> ContinueValue \<and>
    call_stmt (evaluator h n) st s2 = Some (Inl e, s3)
    \<longrightarrow> evaluateTryStatement (evaluator h (Suc n)) (Some (pre @ st # rest)) catchClause finallyBlock s
        = Some (Inl e, s3\<lparr>env := env s\<rparr>)) \<and>
   evaluateStatement h r (ThrowStatement exception) s = Some (Inr Null, s)"
proof (intro conjI impI)
  show "call_stmt (evaluator h n) (TryStatement (Some body) catchClause finallyBlock) s
     = call_stmt (evaluator h n) (BlockStatement body) s"
    by (cases n) (simp_all add: call_0 call_Suc evaluateStatement_def evaluateTryStatement_def)
  show "evaluateTryStatement r (Some body) catchClause finallyBlock s = call_block r (Some body) s"
    by (simp add: evaluateTryStatement_def)
  show "evaluateStatement h r (ThrowStatement exception) s = Some (Inr Null, s)"
    by (simp add: evaluateStatement_def evaluateThrowStatement_def ok_def)
next
  assume a: "blockLoop (evaluator h n) pre Null (enter_block s) = Some (Inr v, s2) \<and>
    v \<noteq> BreakValue \<and> v \<noteq> ContinueValue \<and>
    call_stmt (evaluator h n) st s2 = Some (Inl e, s3)"
  then have "blockLoop (evaluator h n) (pre @ st # rest) Null (enter_block s)
      = blockLoop (evaluator h n) (st # rest) v s2"
    by (intro blockLoop_append) auto
  also from a have "\<dots> = Some (Inl e, s3)"
    by (simp add: bind_def)
  finally show "evaluateTryStatement (evaluator h (Suc n)) (Some (pre @ st # rest)) catchClause finallyBlock s
        = Some (Inl e, s3\<lparr>env := env s\<rparr>)"
    by (simp add: evaluateTryStatement_def call_Suc evaluateBlockStatement_unfold)
qed

text \<open>
  The try statement above, with a second statement in its body.
\<close>

theorem try_is_block_witness:
  "evaluateTryStatement (evaluator example_host 3)
     (Some [ExpressionStatement (Identifier ''y''), VarStatement ''z'' NullLiteral])
     (Some (Some ''e'', Some [VarStatement ''caught'' (Identifier ''e'')]))
     (Some [VarStatement ''done'' (BooleanLiteral True)])
     (NewEvaluator ())
   = Some (Inl (Error ''variable no definida: y''),
           (enter_block (NewEvaluator ()))\<lparr>env := env (NewEvaluator ())\<rparr>)"
proof -
  have 1: "blockLoop (evaluator example_host 2) [] Null (enter_block (NewEvaluator ()))
      = Some (Inr Null, enter_block (NewEvaluator ()))"
    by (simp add: ok_def)
  have 2: "call_stmt (evaluator example_host 2) (ExpressionStatement (Identifier ''y''))
        (enter_block (NewEvaluator ()))
      = Some (Inl (Error ''variable no definida: y''), enter_block (NewEvaluator ()))"
    by (simp add: run_simps enter_block_def)
  from conjunct1 [OF conjunct2 [OF conjunct2 [OF try_is_block [where h = example_host and n = 2 and s = "NewEvaluator ()" and pre = "[]"
      and v = Null and ?s2.0 = "enter_block (NewEvaluator ())"
      and st = "ExpressionStatement (Identifier ''y'')"
      and e = "Error ''variable no definida: y''" and ?s3.0 = "enter_block (NewEvaluator ())"
      and rest = "[VarStatement ''z'' NullLiteral]"
      and catchClause = "Some (Some ''e'', Some [VarStatement ''caught'' (Identifier ''e'')])"
      and finallyBlock = "Some [VarStatement ''done'' (BooleanLiteral True)]"]]]] 1 2
  show ?thesis by (simp add: numeral_3_eq_3)
qed

lemma Get_chain_update:
  "e < length es \<Longrightarrow>
   Get_chain (Suc k) (es[e := (es ! e)\<lparr>variables := AList.update name v (variables (es ! e))\<rparr>]) e name = Some v"
  by (simp add: update_Some_unfold map_of_SomeD AList.update_conv')

lemma env_Get_env_Set: "e < length (environments s) \<Longrightarrow> env_Get (env_Set e name v s) e name = Some v"
proof -
  assume a: "e < length (environments s)"
  then obtain k where k: "length (environments s) = Suc k" by (cases "length (environments s)") auto
  with a show ?thesis
    using Get_chain_update [of e "environments s" k name v]
    by (simp add: env_Get_def env_Set_def)
qed

lemma env_Set_dangling: "\<not> e < length (environments s) \<Longrightarrow> env_Set e name v s = s"
  by (simp add: env_Set_def list_update_beyond)

text \<open>
  C8, as stated, at \<^verbatim>\<open>import len\<close> in a new evaluator and at
  \<^verbatim>\<open>{ var foo = 1; import foo }\<close>: a name other than \<^verbatim>\<open>zyloruntime\<close> is imported
  without an error, because it is already bound.
\<close>

theorem import_bound_name_counterexample:
  "evaluateImportStatement (Some ''len'') (NewEvaluator ()) = Some (Inr Null, NewEvaluator ()) \<and>
   map_option fst (call_stmt (evaluator example_host 5) (BlockStatement
      [VarStatement ''foo'' (NumberLiteral (IntLit 1)), ImportStatement (Some ''foo'')])
      (NewEvaluator ())) = Some (Inr Null)"
  by (simp add: run_simps)

lemma import_zyloruntime_new: "evaluateImportStatement (Some ''zyloruntime'') (NewEvaluator w) = Some (Inr Null, NewEvaluator w)"
  by (simp add: run_simps)

text \<open>
  C8, amended. An import of a name that is already bound, in the current environment or one
  of its parents, returns Null and leaves the state as it is, whatever the name. For a name
  that is not bound, the import succeeds exactly for \<^verbatim>\<open>zyloruntime\<close>, which it binds in
  the current environment; any other unbound name is the error
  \<^verbatim>\<open>Module '...' not found\<close>, and the state is unchanged. An import that has succeeded can
  be repeated: the second one returns Null and changes nothing. In an evaluator made by
  \<^verbatim>\<open>NewEvaluator\<close> the name \<^verbatim>\<open>zyloruntime\<close> is bound from the start, so its import there
  is the first case.
\<close>

theorem import_cases:
  "(env_Get s (env s) name \<noteq> None \<longrightarrow>
      evaluateImportStatement (Some name) s = Some (Inr Null, s)) \<and>
   (env_Get s (env s) name = None \<and> name = ''zyloruntime'' \<longrightarrow>
      evaluateImportStatement (Some name) s
        = Some (Inr Null, env_Set (env s) name (String ''zyloruntime_module'') s)) \<and>
   (env_Get s (env s) name = None \<and> name \<noteq> ''zyloruntime'' \<longrightarrow>
      evaluateImportStatement (Some name) s
        = Some (Inl (Error (''Module '' @ apostrophe @ name @ apostrophe @ '' not found'')), s)) \<and>
   (evaluateImportStatement (Some name) s = Some (Inr Null, s1) \<longrightarrow>
      evaluateImportStatement (Some name) s1 = Some (Inr Null, s1)) \<and>
   call_stmt (evaluator h (Suc n)) (ImportStatement (Some name)) s
     = evaluateImportStatement (Some name) s \<and>
   evaluateImportStatement (Some ''zyloruntime'') (NewEvaluator w) = Some (Inr Null, NewEvaluator w)"
proof (intro conjI impI)
  assume a: "evaluateImportStatement (Some name) s = Some (Inr Null, s1)"
  show "evaluateImportStatement (Some name) s1 = Some (Inr Null, s1)"
  proof (cases "env_Get s (env s) name = None")
    case False
    with a show ?thesis by (auto simp: evaluateImportStatement_def ok_def)
  next
    case True
    with a have s1: "s1 = env_Set (env s) name (String ''zyloruntime_module'') s"
      and nm: "name = ''zyloruntime''"
      by (auto simp: evaluateImportStatement_def ok_def errorf_def split: if_splits)
    show ?thesis
    proof (cases "env s < length (environments s)")
      case True
      then have "env_Get s1 (env s1) name = Some (String ''zyloruntime_module'')"
        by (simp add: s1 env_Get_env_Set)
      then show ?thesis by (simp add: evaluateImportStatement_def ok_def)
    next
      case False
      then have "s1 = s" by (simp add: s1 env_Set_dangling)
      with a show ?thesis by simp
    qed
  qed
next
  show "evaluateImportStatement (Some ''zyloruntime'') (NewEvaluator w) = Some (Inr Null, NewEvaluator w)"
    by (rule import_zyloruntime_new)
qed (auto simp: evaluateImportStatement_def evaluateStatement_def call_Suc ok_def errorf_def)

text \<open>
  In a new evaluator \<^verbatim>\<open>foo\<close> is unbound and \<^verbatim>\<open>zyloruntime\<close> is bound by
  \<^verbatim>\<open>InitBuiltins\<close>; in a bare root environment \<^verbatim>\<open>zyloruntime\<close> is unbound.
\<close>

theorem import_cases_witness:
  "evaluateImportStatement (Some ''foo'') (NewEvaluator ())
     = Some (Inl (Error (''Module '' @ [CHR 0x27] @ ''foo'' @ [CHR 0x27] @ '' not found'')), NewEvaluator ()) \<and>
   evaluateImportStatement (Some ''zyloruntime'') (NewEvaluator ()) = Some (Inr Null, NewEvaluator ()) \<and>
   evaluateImportStatement (Some ''zyloruntime'')
       \<lparr>env = 0, environments = [\<lparr>variables = [], parent = None\<rparr>], list_items = [], world = ()\<rparr>
     = Some (Inr Null,
         \<lparr>env = 0, environments = [\<lparr>variables = [(''zyloruntime'', String ''zyloruntime_module'')], parent = None\<rparr>],
          list_items = [], world = ()\<rparr>) \<and>
   evaluateImportStatement (Some ''zyloruntime'')
       \<lparr>env = 0, environments = [\<lparr>variables = [(''zyloruntime'', String ''zyloruntime_module'')], parent = None\<rparr>],
          list_items = [], world = ()\<rparr>
     = Some (Inr Null,
         \<lparr>env = 0, environments = [\<lparr>variables = [(''zyloruntime'', String ''zyloruntime_module'')], parent = None\<rparr>],
          list_items = [], world = ()\<rparr>)"
proof -
  let ?s0 = "\<lparr>env = 0, environments = [\<lparr>variables = [], parent = None\<rparr>], list_items = [], world = ()\<rparr>"
  have foo: "env_Get (NewEvaluator ()) (env (NewEvaluator ())) ''foo'' = None \<and> ''foo'' \<noteq> ''zyloruntime''"
    by (simp add: run_simps)
  have bound: "env_Get (NewEvaluator ()) (env (NewEvaluator ())) ''zyloruntime'' \<noteq> None"
    by (simp add: run_simps)
  have fresh: "env_Get ?s0 (env ?s0) ''zyloruntime'' = None \<and> ''zyloruntime'' = ''zyloruntime''"
    by (simp add: run_simps)
  note a = import_cases [where s = "NewEvaluator ()" and name = "''foo''" and h = example_host and n = 0 and w = "()"]
  note b = import_cases [where s = "NewEvaluator ()" and name = "''zyloruntime''" and h = example_host and n = 0 and w = "()"]
  note c = import_cases [where s = ?s0 and name = "''zyloruntime''" and h = example_host and n = 0 and w = "()"
      and ?s1.0 = "env_Set 0 ''zyloruntime'' (String ''zyloruntime_module'') ?s0"]
  from a foo have 1: "evaluateImportStatement (Some ''foo'') (NewEvaluator ())
     = Some (Inl (Error (''Module '' @ apostrophe @ ''foo'' @ apostrophe @ '' not found'')), NewEvaluator ())"
    by blast
  from b bound have 2: "evaluateImportStatement (Some ''zyloruntime'') (NewEvaluator ()) = Some (Inr Null, NewEvaluator ())"
    by blast
  from c fresh have 3: "evaluateImportStatement (Some ''zyloruntime'') ?s0
     = Some (Inr Null, env_Set (env ?s0) ''zyloruntime'' (String ''zyloruntime_module'') ?s0)"
    by blast
  with c have 4: "evaluateImportStatement (Some ''zyloruntime'')
      (env_Set 0 ''zyloruntime'' (String ''zyloruntime_module'') ?s0)
     = Some (Inr Null, env_Set 0 ''zyloruntime'' (String ''zyloruntime_module'') ?s0)"
    by simp
  have 5: "env_Set 0 ''zyloruntime'' (String ''zyloruntime_module'') ?s0
     = \<lparr>env = 0, environments = [\<lparr>variables = [(''zyloruntime'', String ''zyloruntime_module'')], parent = None\<rparr>],
          list_items = [], world = ()\<rparr>"
    by (simp add: env_Set_def)
  from 1 2 3 4 5 show ?thesis by (simp add: apostrophe_def)
qed

subsection \<open>Where loop bodies run\<close>

text \<open>
  C2, as stated, at \<^verbatim>\<open>{ var x = 0; if (true) { x = 1 }; x }\<close> and at
  \<^verbatim>\<open>{ var x = 0; for i in [7] { x = 1 }; x }\<close>: the body of the \<^verbatim>\<open>if\<close> and of the
  \<^verbatim>\<open>for\<close> runs in a child environment, the assignment writes there, and \<^verbatim>\<open>x\<close> is still
  0 afterwards.
\<close>

theorem if_for_body_scope_counterexample:
  "map_option fst (call_stmt (evaluator example_host 10) (BlockStatement
      [VarStatement ''x'' (NumberLiteral (IntLit 0)),
       IfStatement (BooleanLiteral True)
         (Some [ExpressionStatement
            (InfixExpression (Identifier ''x'') ''='' (NumberLiteral (IntLit 1)))]) None,
       ExpressionStatement (Identifier ''x'')]) (NewEvaluator ()))
     = Some (Inr (Integer 0)) \<and>
   map_option fst (call_stmt (evaluator example_host 10) (BlockStatement
      [VarStatement ''x'' (NumberLiteral (IntLit 0)),
       ForInStatement ''i'' (ListLiteral [NumberLiteral (IntLit 7)])
         (Some [ExpressionStatement
            (InfixExpression (Identifier ''x'') ''='' (NumberLiteral (IntLit 1)))]),
       ExpressionStatement (Identifier ''x'')]) (NewEvaluator ()))
     = Some (Inr (Integer 0))"
  by (simp add: run_simps)

lemma direct_in_call:
  "env s = a \<Longrightarrow> call_stmt (direct_in a r) st s = call_stmt r st s"
  "env s = a \<Longrightarrow> call_expr (direct_in a r) exp s = call_expr r exp s"
  by (simp_all add: direct_in_def)

lemma bind_cong_at:
  assumes "m s = m' s"
    and "\<And>v s1. m' s = Some (Inr v, s1) \<Longrightarrow> f v s1 = f' v s1"
  shows "bind m f s = bind m' f' s"
  using assms by (auto simp: bind_def split: option.splits sum.splits)

lemma whileBody_direct_in:
  "env_preserving r \<Longrightarrow> env s = a \<Longrightarrow> whileBody (direct_in a r) stmts s = whileBody r stmts s"
proof (induction stmts arbitrary: s)
  case Nil
  show ?case by simp
next
  case (Cons st stmts)
  show ?case
    unfolding whileBody.simps
  proof (rule bind_cong_at)
    show "call_stmt (direct_in a r) st s = call_stmt r st s"
      using Cons.prems(2) by (rule direct_in_call)
  next
    fix v s1
    assume "call_stmt r st s = Some (Inr v, s1)"
    from call_env(1) [OF this Cons.prems(1)] Cons.prems(2) have "env s1 = a" by simp
    from Cons.IH [OF Cons.prems(1) this]
    show "(if v = BreakValue then ok BodyBreak
           else if v = ContinueValue then ok BodyContinue
           else whileBody (direct_in a r) stmts) s1
        = (if v = BreakValue then ok BodyBreak
           else if v = ContinueValue then ok BodyContinue
           else whileBody r stmts) s1"
      by simp
  qed
qed

lemma whileBody_programLoop:
  "whileBody r stmts s = Some (Inr BodyDone, s') \<Longrightarrow> programLoop r stmts s = Some (Inr (), s')"
proof (induction stmts arbitrary: s)
  case Nil
  then show ?case by simp
next
  case (Cons st stmts)
  from Cons.prems have b: "bind (call_stmt r st) (\<lambda>value.
       if value = BreakValue then ok BodyBreak
       else if value = ContinueValue then ok BodyContinue
       else whileBody r stmts) s = Some (Inr BodyDone, s')"
    by simp
  then show ?case
  proof (cases rule: bindE)
    case (Failed e)
    then show ?thesis by simp
  next
    case (Returned v s1)
    from Returned(2) have "whileBody r stmts s1 = Some (Inr BodyDone, s')"
      by (simp split: if_splits)
    from Cons.IH [OF this] Returned(1) show ?thesis
      by (simp add: bind_def)
  qed
qed

lemma evaluateWhileStatement_direct_in:
  assumes P: "env_preserving r"
  shows "evaluateWhileStatement (direct_in (env s) r) c body s = evaluateWhileStatement r c body s"
  unfolding evaluateWhileStatement_def
proof (rule bind_cong_at)
  show "call_expr (direct_in (env s) r) c s = call_expr r c s"
    by (simp add: direct_in_call)
next
  fix v s1
  assume "call_expr r c s = Some (Inr v, s1)"
  from call_env(2) [OF this P] have e1: "env s1 = env s" .
  show "(if \<not> isTruthy v then ok Null
         else case body of None \<Rightarrow> panic
              | Some stmts \<Rightarrow> bind (whileBody (direct_in (env s) r) stmts)
                  (\<lambda>exit. if exit = BodyBreak then ok Null
                     else call_stmt (direct_in (env s) r) (WhileStatement c body))) s1
      = (if \<not> isTruthy v then ok Null
         else case body of None \<Rightarrow> panic
              | Some stmts \<Rightarrow> bind (whileBody r stmts)
                  (\<lambda>exit. if exit = BodyBreak then ok Null
                     else call_stmt r (WhileStatement c body))) s1"
  proof (cases body)
    case None
    then show ?thesis by simp
  next
    case (Some stmts)
    have "bind (whileBody (direct_in (env s) r) stmts)
            (\<lambda>exit. if exit = BodyBreak then ok Null
               else call_stmt (direct_in (env s) r) (WhileStatement c body)) s1
        = bind (whileBody r stmts)
            (\<lambda>exit. if exit = BodyBreak then ok Null
               else call_stmt r (WhileStatement c body)) s1"
    proof (rule bind_cong_at)
      show "whileBody (direct_in (env s) r) stmts s1 = whileBody r stmts s1"
        using whileBody_direct_in [OF P e1] .
    next
      fix exit s2
      assume "whileBody r stmts s1 = Some (Inr exit, s2)"
      from whileBody_env [OF this P] e1 have "env s2 = env s" by simp
      then show "(if exit = BodyBreak then ok Null
                  else call_stmt (direct_in (env s) r) (WhileStatement c body)) s2
          = (if exit = BodyBreak then ok Null
             else call_stmt r (WhileStatement c body)) s2"
        by (simp add: direct_in_call)
    qed
    with Some show ?thesis by simp
  qed
qed

text \<open>
  C2, amended. For every while statement, the condition and the statements of the body are
  evaluated directly in the enclosing environment, never in a child environment and never as
  a block: the result is the same when the evaluator for its calls is cut down to the
  environment that was current on entry. A round of the loop that runs to the end of the
  body leaves exactly the state that the same statements leave when run one after the other
  as top-level statements are (\<open>programLoop\<close>), still in the enclosing environment, and
  the next round starts from that state: what the body wrote is there in the next round and
  after the loop. (The bodies of if and for-in statements are evaluated as blocks, see C9.)
\<close>

theorem while_body_in_enclosing_env:
  "evaluateWhileStatement (direct_in (env s) (evaluator h n)) c body s
     = evaluateWhileStatement (evaluator h n) c body s \<and>
   (call_expr (evaluator h n) c s = Some (Inr v, s1) \<and> isTruthy v \<and>
    whileBody (evaluator h n) stmts s1 = Some (Inr BodyDone, s2)
    \<longrightarrow> env s1 = env s \<and> env s2 = env s \<and>
        programLoop (evaluator h n) stmts s1 = Some (Inr (), s2) \<and>
        evaluateWhileStatement (evaluator h n) c (Some stmts) s
          = call_stmt (evaluator h n) (WhileStatement c (Some stmts)) s2)"
proof (intro conjI impI)
  note P = env_preserving_evaluator [of h n]
  show "evaluateWhileStatement (direct_in (env s) (evaluator h n)) c body s
      = evaluateWhileStatement (evaluator h n) c body s"
    using P by (rule evaluateWhileStatement_direct_in)
  assume a: "call_expr (evaluator h n) c s = Some (Inr v, s1) \<and> isTruthy v \<and>
    whileBody (evaluator h n) stmts s1 = Some (Inr BodyDone, s2)"
  from a have c1: "call_expr (evaluator h n) c s = Some (Inr v, s1)" and t: "isTruthy v"
    and w: "whileBody (evaluator h n) stmts s1 = Some (Inr BodyDone, s2)"
    by simp_all
  from call_env(2) [OF c1 P] show e1: "env s1 = env s" .
  from whileBody_env [OF w P] e1 show "env s2 = env s" by simp
  from w show "programLoop (evaluator h n) stmts s1 = Some (Inr (), s2)"
    by (rule whileBody_programLoop)
  from c1 t w show "evaluateWhileStatement (evaluator h n) c (Some stmts) s
      = call_stmt (evaluator h n) (WhileStatement c (Some stmts)) s2"
    by (simp add: evaluateWhileStatement_def bind_def)
qed

text \<open>
  \<^verbatim>\<open>while (x < 2) { x = x + 1 }\<close> from a state where \<^verbatim>\<open>x\<close> is 0: the first round, and
  the whole loop, after which \<^verbatim>\<open>x\<close> is 2.
\<close>

theorem while_body_in_enclosing_env_witness:
  "programLoop (evaluator example_host 4)
       [ExpressionStatement (InfixExpression (Identifier ''x'') ''=''
          (InfixExpression (Identifier ''x'') ''+'' (NumberLiteral (IntLit 1))))]
       (env_Set 0 ''x'' (Integer 0) (NewEvaluator ()))
     = Some (Inr (), env_Set 0 ''x'' (Integer 1) (env_Set 0 ''x'' (Integer 0) (NewEvaluator ()))) \<and>
   evaluateWhileStatement (evaluator example_host 4)
       (InfixExpression (Identifier ''x'') ''<'' (NumberLiteral (IntLit 2)))
       (Some [ExpressionStatement (InfixExpression (Identifier ''x'') ''=''
          (InfixExpression (Identifier ''x'') ''+'' (NumberLiteral (IntLit 1))))])
       (env_Set 0 ''x'' (Integer 0) (NewEvaluator ()))
     = call_stmt (evaluator example_host 4)
         (WhileStatement (InfixExpression (Identifier ''x'') ''<'' (NumberLiteral (IntLit 2)))
            (Some [ExpressionStatement (InfixExpression (Identifier ''x'') ''=''
               (InfixExpression (Identifier ''x'') ''+'' (NumberLiteral (IntLit 1))))]))
         (env_Set 0 ''x'' (Integer 1) (env_Set 0 ''x'' (Integer 0) (NewEvaluator ()))) \<and>
   map_option fst (call_stmt (evaluator example_host 12) (BlockStatement
      [VarStatement ''x'' (NumberLiteral (IntLit 0)),
       WhileStatement (InfixExpression (Identifier ''x'') ''<'' (NumberLiteral (IntLit 2)))
         (Some [ExpressionStatement (InfixExpression (Identifier ''x'') ''=''
            (InfixExpression (Identifier ''x'') ''+'' (NumberLiteral (IntLit 1))))]),
       ExpressionStatement (Identifier ''x'')]) (NewEvaluator ()))
     = Some (Inr (Integer 2))"
proof -
  let ?s = "env_Set 0 ''x'' (Integer 0) (NewEvaluator ())"
  let ?s2 = "env_Set 0 ''x'' (Integer 1) ?s"
  let ?c = "InfixExpression (Identifier ''x'') ''<'' (NumberLiteral (IntLit 2))"
  let ?body = "[ExpressionStatement (InfixExpression (Identifier ''x'') ''=''
          (InfixExpression (Identifier ''x'') ''+'' (NumberLiteral (IntLit 1))))]"
  have c: "call_expr (evaluator example_host 4) ?c ?s = Some (Inr (Boolean True), ?s)"
    by (simp add: run_simps)
  have t: "isTruthy (Boolean True)" by (simp add: isTruthy_def)
  have w: "whileBody (evaluator example_host 4) ?body ?s = Some (Inr BodyDone, ?s2)"
    by (simp add: run_simps)
  note th = while_body_in_enclosing_env [where h = example_host and n = 4 and s = ?s
      and c = ?c and v = "Boolean True" and ?s1.0 = ?s and stmts = ?body and ?s2.0 = ?s2
      and body = "Some ?body"]
  from th c t w have A: "programLoop (evaluator example_host 4) ?body ?s = Some (Inr (), ?s2)"
    and B: "evaluateWhileStatement (evaluator example_host 4) ?c (Some ?body) ?s
      = call_stmt (evaluator example_host 4) (WhileStatement ?c (Some ?body)) ?s2"
    by blast+
  have C: "map_option fst (call_stmt (evaluator example_host 12) (BlockStatement
      [VarStatement ''x'' (NumberLiteral (IntLit 0)), WhileStatement ?c (Some ?body),
       ExpressionStatement (Identifier ''x'')]) (NewEvaluator ())) = Some (Inr (Integer 2))"
    by (simp add: run_simps)
  from A B C show ?thesis by blast
qed

subsection \<open>Class attribute defaults\<close>

text \<open>
  C4. The claim: a List-typed attribute default mutated through one instance does not
  change the field of another instance. The code at
  \<^verbatim>\<open>class A { var items = [] }  var a = A()  var b = A()  a.items.Append(1)  b.items.Len()\<close>:
  the length read through \<^verbatim>\<open>b\<close> is 1, because \<^verbatim>\<open>instantiateClass\<close> copies the pointer
  to the one List made when the class statement was evaluated.
\<close>

theorem shared_list_default:
  "map_option fst (call_stmt (evaluator example_host 12) (BlockStatement
      [ClassStatement ''A'' [(''items'', ListLiteral [])] [],
       VarStatement ''a'' (CallExpression (Identifier ''A'') []),
       VarStatement ''b'' (CallExpression (Identifier ''A'') []),
       ExpressionStatement (CallExpression
         (MemberExpression (MemberExpression (Identifier ''a'') (Some ''items'')) (Some ''Append''))
         [NumberLiteral (IntLit 1)]),
       ExpressionStatement (CallExpression
         (MemberExpression (MemberExpression (Identifier ''b'') (Some ''items'')) (Some ''Len''))
         [])]) (NewEvaluator ()))
     = Some (Inr (Integer 1))"
  by (simp add: run_simps)

end
